theory Spec2Isabelle
  imports
    Main
    "HOL-Library.Char_ord"
    "HOL-Library.List_Lexorder"
    "HOL-Library.Product_Lexorder"
    "HOL-Library.Multiset"
    "HOL-Library.AList"
begin

section \<open>Strings and integers of the host language\<close>

text \<open>
  A Python \<open>str\<close> is a sequence of code points. It is modelled by \<^typ>\<open>string\<close>, each
  \<^typ>\<open>char\<close> read as the code point of the same number, so the model covers the texts whose
  code points lie in U+0000..U+00FF. Strings compare as Python compares them: lexicographically
  by code point, a proper prefix first.
\<close>

definition code_point :: "char \<Rightarrow> nat" where
  "code_point c = of_char c"

text \<open>\<open>str.isspace\<close> on one character, for the code points below 256.\<close>

definition py_isspace :: "char \<Rightarrow> bool" where
  "py_isspace c =
     (let n = code_point c
      in (9 \<le> n \<and> n \<le> 13) \<or> (28 \<le> n \<and> n \<le> 32) \<or> n = 133 \<or> n = 160)"

text \<open>\<open>str.strip()\<close>: leading and trailing whitespace removed.\<close>

definition py_strip :: "string \<Rightarrow> string" where
  "py_strip s = rev (dropWhile py_isspace (rev (dropWhile py_isspace s)))"

text \<open>\<open>sep.join(parts)\<close>.\<close>

fun py_join :: "string \<Rightarrow> string list \<Rightarrow> string" where
  "py_join sep [] = []"
| "py_join sep [p] = p"
| "py_join sep (p # q # ps) = p @ sep @ py_join sep (q # ps)"

text \<open>\<open>s.split('\n')\<close>: the pieces between line feeds; the empty string gives one empty piece.\<close>

fun split_lines :: "string \<Rightarrow> string list" where
  "split_lines [] = [[]]"
| "split_lines (c # cs) =
     (if c = CHR 0x0A then [] # split_lines cs
      else (case split_lines cs of [] \<Rightarrow> [[c]] | l # ls \<Rightarrow> (c # l) # ls))"

text \<open>\<open>sub in s\<close> on strings.\<close>

fun starts_with :: "string \<Rightarrow> string \<Rightarrow> bool" where
  "starts_with [] s = True"
| "starts_with (p # ps) [] = False"
| "starts_with (p # ps) (c # cs) = (p = c \<and> starts_with ps cs)"

fun py_contains :: "string \<Rightarrow> string \<Rightarrow> bool" where
  "py_contains sub [] = (sub = [])"
| "py_contains sub (c # cs) = (starts_with sub (c # cs) \<or> py_contains sub cs)"

text \<open>
  \<open>str.isdigit()\<close>: non-empty and every character a digit. Below U+0100 the digits are
  \<open>0\<close>..\<open>9\<close> and the superscripts U+00B2, U+00B3 and U+00B9; only the first ten are decimal
  digits that \<open>int()\<close> reads.
\<close>

definition is_decimal :: "char \<Rightarrow> bool" where
  "is_decimal c = (48 \<le> code_point c \<and> code_point c \<le> 57)"

definition is_digit_char :: "char \<Rightarrow> bool" where
  "is_digit_char c = (is_decimal c \<or> code_point c = 178 \<or> code_point c = 179 \<or> code_point c = 185)"

definition py_isdigit :: "string \<Rightarrow> bool" where
  "py_isdigit s = (s \<noteq> [] \<and> list_all is_digit_char s)"

text \<open>
  \<open>int(s)\<close> on a string, base ten: optional surrounding whitespace, an optional sign, then
  decimal digits, single underscores allowed between digits. The whitespace \<open>int\<close> skips is
  U+0009..U+000D and the space, and U+0085 and U+00A0, which it first rewrites into spaces.
  \<open>None\<close> stands for the \<open>ValueError\<close> it raises. The interpreter's optional cap on
  the number of digits is not modelled.
\<close>

definition int_space :: "char \<Rightarrow> bool" where
  "int_space c =
     (let n = code_point c in (9 \<le> n \<and> n \<le> 13) \<or> n = 32 \<or> n = 133 \<or> n = 160)"

fun digits_ok :: "string \<Rightarrow> bool" where
  "digits_ok [] = False"
| "digits_ok [c] = is_decimal c"
| "digits_ok (c # d # cs) =
     (is_decimal c \<and> (if d = CHR ''_'' then digits_ok cs else digits_ok (d # cs)))"

definition digits_value :: "string \<Rightarrow> int" where
  "digits_value s =
     foldl (\<lambda>a c. 10 * a + int (code_point c - 48)) 0 (filter (\<lambda>c. c \<noteq> CHR ''_'') s)"

definition py_int :: "string \<Rightarrow> int option" where
  "py_int s =
     (let t = dropWhile int_space s;
          neg = (case t of [] \<Rightarrow> False | c # _ \<Rightarrow> c = CHR ''-'');
          u = (case t of [] \<Rightarrow> [] | c # r \<Rightarrow> if c = CHR ''-'' \<or> c = CHR ''+'' then r else t);
          v = rev (dropWhile int_space (rev u))
      in if digits_ok v then Some (if neg then - digits_value v else digits_value v)
         else None)"

text \<open>\<open>str(n)\<close> on an integer.\<close>

fun str_nat :: "nat \<Rightarrow> string" where
  "str_nat n =
     (if n < 10 then [char_of (48 + n)]
      else str_nat (n div 10) @ [char_of (48 + n mod 10)])"

declare str_nat.simps [simp del]

definition str_int :: "int \<Rightarrow> string" where
  "str_int i = (if i < 0 then CHR ''-'' # str_nat (nat (- i)) else str_nat (nat i))"

text \<open>
  A value that is a string at some call sites and an integer at others
  (\<open>format_modifier\<close> and \<open>get_proficiency_bonus\<close> receive both).
\<close>

datatype pyval = PStr string | PInt int

fun to_int :: "pyval \<Rightarrow> int option" where
  "to_int (PInt n) = Some n"
| "to_int (PStr s) = py_int s"

fun to_str :: "pyval \<Rightarrow> string" where
  "to_str (PStr s) = s"
| "to_str (PInt n) = str_int n"

text \<open>\<open>html.escape(s)\<close> with its default \<open>quote=True\<close>.\<close>

fun escape_char :: "char \<Rightarrow> string" where
  "escape_char c =
     (if c = CHR ''&'' then ''&amp;''
      else if c = CHR ''<'' then ''&lt;''
      else if c = CHR ''>'' then ''&gt;''
      else if c = CHR 0x22 then ''&quot;''
      else if c = CHR 0x27 then ''&#x27;''
      else [c])"

definition escape :: "string \<Rightarrow> string" where
  "escape s = concat (map escape_char s)"

section \<open>The element tree\<close>

text \<open>
  An element of the parsed tree, as \<open>xml.etree.ElementTree\<close> holds it: tag, attributes,
  the text before the first child, the children in document order, and the text after the
  closing tag.
\<close>

datatype element =
  Element (tag: string) (attrib: "(string \<times> string) list") (etext: "string option")
    (children: "element list") (tail: "string option")

text \<open>
  \<open>element.find(path)\<close> for the paths the program uses: plain tag names separated by
  \<open>/\<close>, given here as the list of the names. The first match in document order, if any.
\<close>

fun findall :: "element \<Rightarrow> string list \<Rightarrow> element list" where
  "findall e [] = [e]"
| "findall e (t # ts) =
     concat (map (\<lambda>c. findall c ts) (filter (\<lambda>c. tag c = t) (children e)))"

definition find :: "element \<Rightarrow> string list \<Rightarrow> element option" where
  "find e path = (case findall e path of [] \<Rightarrow> None | x # _ \<Rightarrow> Some x)"

section \<open>Helper functions of the program\<close>

definition safe_get_text :: "element option \<Rightarrow> string list \<Rightarrow> string \<Rightarrow> string" where
  "safe_get_text element path dflt =
     (case element of
        None \<Rightarrow> dflt
      | Some e \<Rightarrow>
          (case find e path of
             None \<Rightarrow> dflt
           | Some sub \<Rightarrow>
               (case etext sub of
                  None \<Rightarrow> dflt
                | Some t \<Rightarrow> if t \<noteq> [] then t else dflt)))"

text \<open>
  The duplicate-line filter of \<open>formatted_html\<close>: the loop over the lines, with the set of
  trimmed lines seen so far and the lines kept so far.
\<close>

fun unique_lines_loop :: "string list \<Rightarrow> string set \<Rightarrow> string list \<Rightarrow> string list" where
  "unique_lines_loop [] seen unique_lines = unique_lines"
| "unique_lines_loop (line # lines) seen unique_lines =
     (let line_stripped = py_strip line
      in if line_stripped \<noteq> [] \<and> line_stripped \<in> seen
         then unique_lines_loop lines seen unique_lines
         else unique_lines_loop lines
                (if line_stripped \<noteq> [] then insert line_stripped seen else seen)
                (unique_lines @ [line]))"

text \<open>
  \<open>formatted_html\<close>. The serializer \<open>ET.tostring(child, encoding='unicode', method='html')\<close>
  belongs to the standard library and is the parameter \<open>tostring\<close>.
\<close>

definition formatted_html :: "(element \<Rightarrow> string) \<Rightarrow> element option \<Rightarrow> string" where
  "formatted_html tostring element =
     (case element of
        None \<Rightarrow> []
      | Some e \<Rightarrow>
          (let text = py_strip (case etext e of None \<Rightarrow> [] | Some t \<Rightarrow> t);
               parts = (if text \<noteq> [] then [text] else []) @ map tostring (children e);
               html_str = py_strip (concat parts);
               lines = split_lines html_str;
               unique_lines = unique_lines_loop lines {} []
           in py_strip (py_join [CHR 0x0A] unique_lines)))"

definition format_modifier :: "pyval \<Rightarrow> string" where
  "format_modifier v =
     (case to_int v of
        Some val \<Rightarrow> if val \<ge> 0 then CHR ''+'' # str_int val else str_int val
      | None \<Rightarrow> to_str v)"

definition get_proficiency_bonus :: "pyval \<Rightarrow> int" where
  "get_proficiency_bonus level =
     (case to_int level of
        Some lvl \<Rightarrow> 2 + ((lvl - 1) div 4)
      | None \<Rightarrow> 2)"

definition escape_html :: "string \<Rightarrow> string" where
  "escape_html text = (if text = [] then [] else escape text)"

section \<open>Errors\<close>

text \<open>
  What \<open>parse_fgu_character_to_html\<close> returns in place of a document: the pair
  \<open>(None, message)\<close>. \<open>MalformedInput\<close> is the return of line 96 and carries its message;
  the other two are exceptions caught by the handler of line 988, which returns their text:
  \<open>ParseError\<close> from \<open>ET.fromstring\<close>, \<open>ValueError\<close> from \<open>int()\<close>, kept with
  the literal that \<open>int()\<close> rejected, and \<open>KeyError\<close> from a dictionary lookup, kept with
  the key.
\<close>

datatype error = ParseError string | MalformedInput string | ValueError string | KeyError string

section \<open>The character model\<close>

text \<open>
  The local variables that the first half of \<open>parse_fgu_character_to_html\<close> (lines 98 to 316)
  fills and the second half (from line 318) reads. Each dictionary with fixed keys is a record;
  a dictionary filled by assignment \<open>d[k] = v\<close> is an association list in insertion order,
  where assigning to a key already present replaces its value in place.
\<close>

record class_info =
  cls_name :: string
  cls_level :: string
  cls_spec :: string

record ability =
  score :: string
  bonus :: string
  save :: string
  saveprof :: bool

record skill =
  skill_name :: string
  skill_total :: string
  skill_prof :: bool
  skill_stat :: string

record feature =
  feature_name :: string
  feature_level :: string

record feat =
  feat_name :: string
  feat_category :: string
  feat_level :: string

record item =
  item_name :: string
  item_count :: string
  item_cost :: string

record spell =
  spell_name :: string
  spell_level :: string
  spell_prepared :: string
  spell_school :: string
  spell_casting_time :: string
  spell_range :: string
  spell_components :: string
  spell_duration :: string
  spell_ritual :: bool
  spell_description :: string

record sorcery =
  sorcery_max :: string
  sorcery_used :: string

record slot =
  max_slots :: string
  used_slots :: string

record character =
  name :: string
  race :: string
  subrace :: string
  alignment :: string
  background :: string
  gender :: string
  age :: string
  total_level :: int
  classes_info :: "class_info list"
  prof_bonus :: int
  abilities :: "(string \<times> ability) list"
  hp_total :: string
  hp_wounds :: string
  hp_temp :: string
  ac_total :: string
  speed_total :: string
  initiative :: string
  skills :: "skill list"
  features :: "feature list"
  feats :: "feat list"
  inventory :: "item list"
  coins :: "(string \<times> string) list"
  personality :: string
  ideals :: string
  bonds :: string
  flaws :: string
  spell_ability :: string
  spell_save_dc :: string
  spell_attack_bonus :: string
  spells :: "spell list"
  sorcery_points :: "sorcery option"
  spell_slots :: "(string \<times> slot) list"

section \<open>Extraction (lines 98 to 316)\<close>

text \<open>\<open>for x in (elem if elem is not None else [])\<close>: the children, none for a missing element.\<close>

definition child_list :: "element option \<Rightarrow> element list" where
  "child_list elem = (case elem of None \<Rightarrow> [] | Some e \<Rightarrow> children e)"

text \<open>Lines 108 to 123: the running total and the class entries.\<close>

fun classes_loop :: "element list \<Rightarrow> int \<Rightarrow> class_info list \<Rightarrow> int \<times> class_info list" where
  "classes_loop [] level_sum infos = (level_sum, infos)"
| "classes_loop (cls # rest) level_sum infos =
     classes_loop rest
       (case py_int (safe_get_text (Some cls) [''level''] []) of
          Some n \<Rightarrow> level_sum + n
        | None \<Rightarrow> level_sum)
       (infos @ [\<lparr>cls_name = safe_get_text (Some cls) [''name''] [],
                  cls_level = safe_get_text (Some cls) [''level''] [],
                  cls_spec = safe_get_text (Some cls) [''specialization''] []\<rparr>])"

text \<open>Lines 128 to 138.\<close>

definition ability_names :: "string list" where
  "ability_names =
     [''strength'', ''dexterity'', ''constitution'', ''intelligence'', ''wisdom'', ''charisma'']"

fun abilities_loop ::
  "element \<Rightarrow> string list \<Rightarrow> (string \<times> ability) list \<Rightarrow> (string \<times> ability) list" where
  "abilities_loop char [] abils = abils"
| "abilities_loop char (abil_name # rest) abils =
     (case find char [''abilities'', abil_name] of
        None \<Rightarrow> abilities_loop char rest abils
      | Some abil_elem \<Rightarrow>
          abilities_loop char rest
            (AList.update abil_name
               \<lparr>score = safe_get_text (Some abil_elem) [''score''] [],
                bonus = safe_get_text (Some abil_elem) [''bonus''] [],
                save = safe_get_text (Some abil_elem) [''save''] [],
                saveprof = (safe_get_text (Some abil_elem) [''saveprof''] ''0'' = ''1'')\<rparr>
               abils))"

text \<open>Lines 141 to 161: a field of an optional section, with the value used when the section is missing.\<close>

definition section_text :: "element option \<Rightarrow> string list \<Rightarrow> string \<Rightarrow> string" where
  "section_text elem path missing =
     (case elem of None \<Rightarrow> missing | Some e \<Rightarrow> safe_get_text (Some e) path [])"

definition extract_initiative :: "element \<Rightarrow> (string \<times> ability) list \<Rightarrow> string" where
  "extract_initiative char abils =
     (let init = section_text (find char [''initiative'']) [''total''] []
      in if init = [] then (case map_of abils ''dexterity'' of Some d \<Rightarrow> bonus d | None \<Rightarrow> init)
         else init)"

text \<open>Lines 164 to 179.\<close>

definition skill_entry :: "element \<Rightarrow> skill" where
  "skill_entry sk =
     \<lparr>skill_name = safe_get_text (Some sk) [''name''] [],
      skill_total = safe_get_text (Some sk) [''total''] [],
      skill_prof = (safe_get_text (Some sk) [''prof''] ''0'' = ''1''),
      skill_stat = safe_get_text (Some sk) [''stat''] []\<rparr>"

definition extract_skills :: "element \<Rightarrow> skill list" where
  "extract_skills char =
     sort_key skill_name (map skill_entry (child_list (find char [''skilllist''])))"

text \<open>Lines 182 to 219.\<close>

definition feature_entry :: "element \<Rightarrow> feature" where
  "feature_entry f =
     \<lparr>feature_name = safe_get_text (Some f) [''name''] [],
      feature_level = safe_get_text (Some f) [''level''] []\<rparr>"

definition feat_entry :: "element \<Rightarrow> feat" where
  "feat_entry f =
     \<lparr>feat_name = safe_get_text (Some f) [''name''] [],
      feat_category = safe_get_text (Some f) [''category''] [],
      feat_level = safe_get_text (Some f) [''level''] []\<rparr>"

definition item_entry :: "element \<Rightarrow> item" where
  "item_entry i =
     \<lparr>item_name = safe_get_text (Some i) [''name''] [],
      item_count = safe_get_text (Some i) [''count''] ''1'',
      item_cost = safe_get_text (Some i) [''cost''] []\<rparr>"

text \<open>Lines 222 to 228: a later coin of the same name overwrites the earlier amount.\<close>

fun coins_loop :: "element list \<Rightarrow> (string \<times> string) list \<Rightarrow> (string \<times> string) list" where
  "coins_loop [] cs = cs"
| "coins_loop (coin # rest) cs =
     coins_loop rest
       (AList.update (safe_get_text (Some coin) [''name''] [])
          (safe_get_text (Some coin) [''amount''] ''0'') cs)"

text \<open>Lines 237 to 245: the first class that declares a spell ability.\<close>

fun spell_ability_loop :: "element list \<Rightarrow> string" where
  "spell_ability_loop [] = []"
| "spell_ability_loop (cls # rest) =
     (let spell_abil = safe_get_text (Some cls) [''spellability''] []
      in if spell_abil \<noteq> [] then spell_abil else spell_ability_loop rest)"

text \<open>Lines 253 to 283: the powers kept as spells, in document order.\<close>

definition spell_entry :: "(element \<Rightarrow> string) \<Rightarrow> element \<Rightarrow> spell" where
  "spell_entry tostring pw =
     \<lparr>spell_name = safe_get_text (Some pw) [''name''] [],
      spell_level = safe_get_text (Some pw) [''level''] [],
      spell_prepared = safe_get_text (Some pw) [''prepared''] ''0'',
      spell_school = safe_get_text (Some pw) [''school''] [],
      spell_casting_time = safe_get_text (Some pw) [''castingtime''] [],
      spell_range = safe_get_text (Some pw) [''range''] [],
      spell_components = safe_get_text (Some pw) [''components''] [],
      spell_duration = safe_get_text (Some pw) [''duration''] [],
      spell_ritual = (safe_get_text (Some pw) [''ritual''] ''0'' = ''1''),
      spell_description = formatted_html tostring (find pw [''description''])\<rparr>"

fun spells_loop :: "(element \<Rightarrow> string) \<Rightarrow> element list \<Rightarrow> spell list \<Rightarrow> spell list" where
  "spells_loop tostring [] kept = kept"
| "spells_loop tostring (pw # rest) kept =
     (let grp = safe_get_text (Some pw) [''group''] [];
          lvl = safe_get_text (Some pw) [''level''] [];
          school = safe_get_text (Some pw) [''school''] []
      in if (py_contains ''Spells'' grp \<or> school \<noteq> []) \<and> lvl \<noteq> []
         then spells_loop tostring rest (kept @ [spell_entry tostring pw])
         else spells_loop tostring rest kept)"

text \<open>
  \<open>list.sort(key=...)\<close> and \<open>sorted(..., key=...)\<close>: the key of every entry is computed
  first, in list order, and the first exception leaves the call; then the entries are sorted
  by their keys, entries of equal key staying in their order.
\<close>

fun keys_of :: "('a \<Rightarrow> error + 'k) \<Rightarrow> 'a list \<Rightarrow> error + 'k list" where
  "keys_of key [] = Inr []"
| "keys_of key (x # xs) =
     (case key x of
        Inl e \<Rightarrow> Inl e
      | Inr k \<Rightarrow> (case keys_of key xs of Inl e \<Rightarrow> Inl e | Inr ks \<Rightarrow> Inr (k # ks)))"

definition py_sorted :: "('a \<Rightarrow> error + 'k::linorder) \<Rightarrow> 'a list \<Rightarrow> error + 'a list" where
  "py_sorted key xs =
     (case keys_of key xs of
        Inl e \<Rightarrow> Inl e
      | Inr ks \<Rightarrow> Inr (map snd (sort_key fst (zip ks xs))))"

text \<open>Line 285: the key of a spell.\<close>

definition spell_sort_key :: "spell \<Rightarrow> error + (int \<times> string)" where
  "spell_sort_key x =
     (if py_isdigit (spell_level x)
      then (case py_int (spell_level x) of
              Some n \<Rightarrow> Inr (n, spell_name x)
            | None \<Rightarrow> Inl (ValueError (spell_level x)))
      else Inr (99, spell_name x))"

text \<open>Lines 288 to 301: the first power named \<open>Sorcery Points\<close> decides.\<close>

fun sorcery_loop :: "element list \<Rightarrow> sorcery option" where
  "sorcery_loop [] = None"
| "sorcery_loop (pw # rest) =
     (if safe_get_text (Some pw) [''name''] [] = ''Sorcery Points''
      then (let smax = safe_get_text (Some pw) [''prepared''] ''0'';
                sused = safe_get_text (Some pw) [''locked''] ''0''
            in if smax \<noteq> [] \<and> smax \<noteq> ''0''
               then Some \<lparr>sorcery_max = smax, sorcery_used = sused\<rparr>
               else None)
      else sorcery_loop rest)"

text \<open>Lines 304 to 316: slot levels 1 to 9, kept when the maximum is neither empty nor \<open>0\<close>.\<close>

fun spell_slots_loop ::
  "element \<Rightarrow> nat list \<Rightarrow> (string \<times> slot) list \<Rightarrow> (string \<times> slot) list" where
  "spell_slots_loop powermeta [] slots = slots"
| "spell_slots_loop powermeta (slot_level # rest) slots =
     (case find powermeta [''spellslots'' @ str_nat slot_level] of
        None \<Rightarrow> spell_slots_loop powermeta rest slots
      | Some slot_elem \<Rightarrow>
          (let smax = safe_get_text (Some slot_elem) [''max''] ''0'';
               sused = safe_get_text (Some slot_elem) [''used''] ''0''
           in if smax \<noteq> [] \<and> smax \<noteq> ''0''
              then spell_slots_loop powermeta rest
                     (AList.update (str_nat slot_level)
                        \<lparr>max_slots = smax, used_slots = sused\<rparr> slots)
              else spell_slots_loop powermeta rest slots))"

definition extract_spell_slots :: "element \<Rightarrow> (string \<times> slot) list" where
  "extract_spell_slots char =
     (case find char [''powermeta''] of
        None \<Rightarrow> []
      | Some powermeta \<Rightarrow> spell_slots_loop powermeta [1..<10] [])"

text \<open>
  The extraction as a whole, from the root of the parsed tree. The only statement of lines 98
  to 316 that can raise is the sort of line 285.
\<close>

definition no_character_message :: string where
  "no_character_message = ''Error: No character data found in XML''"

definition extract_model :: "(element \<Rightarrow> string) \<Rightarrow> element \<Rightarrow> error + character" where
  "extract_model tostring root =
     (case find root [''character''] of
        None \<Rightarrow> Inl (MalformedInput no_character_message)
      | Some char \<Rightarrow>
          (let cl = classes_loop (child_list (find char [''classes''])) 0 [];
               abils = abilities_loop char ability_names []
           in case py_sorted spell_sort_key
                     (spells_loop tostring (child_list (find char [''powers''])) []) of
                Inl e \<Rightarrow> Inl e
              | Inr sorted_spells \<Rightarrow>
                  Inr \<lparr>name = safe_get_text (Some char) [''name''] [],
                       race = safe_get_text (Some char) [''race''] [],
                       subrace = safe_get_text (Some char) [''subrace''] [],
                       alignment = safe_get_text (Some char) [''alignment''] [],
                       background = safe_get_text (Some char) [''background''] [],
                       gender = safe_get_text (Some char) [''gender''] [],
                       age = safe_get_text (Some char) [''age''] [],
                       total_level = fst cl,
                       classes_info = snd cl,
                       prof_bonus = get_proficiency_bonus (PInt (fst cl)),
                       abilities = abils,
                       hp_total = section_text (find char [''hp'']) [''total''] ''0'',
                       hp_wounds = py_strip (section_text (find char [''hp'']) [''wounds''] ''0''),
                       hp_temp = py_strip (section_text (find char [''hp'']) [''temporary''] ''0''),
                       ac_total = section_text (find char [''defenses'', ''ac'']) [''total''] ''10'',
                       speed_total = section_text (find char [''speed'']) [''total''] ''30'',
                       initiative = extract_initiative char abils,
                       skills = extract_skills char,
                       features = map feature_entry (child_list (find char [''featurelist''])),
                       feats = map feat_entry (child_list (find char [''featlist''])),
                       inventory = map item_entry (child_list (find char [''inventorylist''])),
                       coins = coins_loop (child_list (find char [''coins''])) [],
                       personality = safe_get_text (Some char) [''personality''] [],
                       ideals = safe_get_text (Some char) [''ideals''] [],
                       bonds = safe_get_text (Some char) [''bonds''] [],
                       flaws = safe_get_text (Some char) [''flaws''] [],
                       spell_ability = spell_ability_loop (child_list (find char [''classes''])),
                       spell_save_dc = section_text (find char [''spellcasting'']) [''saveDC''] [],
                       spell_attack_bonus =
                         section_text (find char [''spellcasting'']) [''attackbonus''] [],
                       spells = sorted_spells,
                       sorcery_points = sorcery_loop (child_list (find char [''powers''])),
                       spell_slots = extract_spell_slots char\<rparr>))"

section \<open>Rendering (lines 318 to 986)\<close>

text \<open>
  The document is assembled by appending to one string, in the order below. The style sheet,
  the literal text of lines 326 to 702 between \<open><style>\<close> and \<open></style>\<close>, is the
  parameter \<open>css\<close>. The four glyphs of the template that lie beyond U+00FF stand as their
  UTF-8 bytes.
\<close>

definition glyph_check :: string where
  "glyph_check = [CHR 0xE2, CHR 0x9C, CHR 0x93]"

definition glyph_filled :: string where
  "glyph_filled = [CHR 0xE2, CHR 0x97, CHR 0x8F]"

definition glyph_hollow :: string where
  "glyph_hollow = [CHR 0xE2, CHR 0x97, CHR 0x8B]"

definition glyph_down :: string where
  "glyph_down = [CHR 0xE2, CHR 0x96, CHR 0xBC]"

text \<open>Lines 319 to 710.\<close>

definition render_head :: "string \<Rightarrow> character \<Rightarrow> string" where
  \<open>render_head css m =
     ''<!DOCTYPE html>\<newline>''
     @ ''<html lang="en">\<newline>''
     @ ''<head>\<newline>''
     @ ''    <meta charset="UTF-8">\<newline>''
     @ ''    <meta name="viewport" content="width=device-width, initial-scale=1.0">\<newline>''
     @ ''    <title>Character Sheet - ''
     @ (if name m \<noteq> [] then escape_html (name m) else ''Unknown'')
     @ ''</title>\<newline>''
     @ ''    <style>\<newline>''
     @ css
     @ ''    </style>\<newline>''
     @ ''</head>\<newline>''
     @ ''<body>\<newline>''
     @ ''    <div class="character-sheet">\<newline>''
     @ ''        <div class="header">\<newline>''
     @ ''            <h1>''
     @ (if name m \<noteq> [] then escape_html (name m) else ''Character Name'')
     @ ''</h1>\<newline>''
     @ ''            <div class="header-info">\<newline>''\<close>

text \<open>Lines 712 to 736.\<close>

definition race_display :: "character \<Rightarrow> string" where
  "race_display m = race m @ (if subrace m \<noteq> [] then '' ('' @ subrace m @ '')'' else [])"

definition classes_str :: "character \<Rightarrow> string" where
  "classes_str m = py_join '', '' (map (\<lambda>c. cls_name c @ '' '' @ cls_level c) (classes_info m))"

definition render_header_info :: "character \<Rightarrow> string" where
  \<open>render_header_info m =
     (if race m \<noteq> [] then
        ''                <div><strong>Race:</strong> ''
        @ escape_html (race_display m)
        @ ''</div>\<newline>''
      else [])
     @ (if classes_info m \<noteq> [] then
        ''                <div><strong>Class & Level:</strong> ''
        @ escape_html (classes_str m)
        @ ''</div>\<newline>''
      else [])
     @ (if background m \<noteq> [] then
        ''                <div><strong>Background:</strong> ''
        @ escape_html (background m)
        @ ''</div>\<newline>''
      else [])
     @ (if alignment m \<noteq> [] then
        ''                <div><strong>Alignment:</strong> ''
        @ escape_html (alignment m)
        @ ''</div>\<newline>''
      else [])
     @ ''                <div><strong>Proficiency Bonus:</strong> ''
     @ format_modifier (PInt (prof_bonus m))
     @ ''</div>\<newline>''
     @ ''            </div>\<newline>''
     @ ''        </div>\<newline>''
     @ ''        \<newline>''
     @ ''        <div class="page">\<newline>''
     @ ''            <div class="page-layout">\<newline>''
     @ ''                <div class="sidebar">\<newline>''\<close>

text \<open>Lines 739 to 755. \<open>str.capitalize\<close> and \<open>str.upper\<close> on the unaccented Latin letters.\<close>

definition ascii_upper :: "char \<Rightarrow> char" where
  "ascii_upper c =
     (if 97 \<le> code_point c \<and> code_point c \<le> 122 then char_of (code_point c - 32) else c)"

definition ascii_lower :: "char \<Rightarrow> char" where
  "ascii_lower c =
     (if 65 \<le> code_point c \<and> code_point c \<le> 90 then char_of (code_point c + 32) else c)"

definition capitalize :: "string \<Rightarrow> string" where
  "capitalize s = (case s of [] \<Rightarrow> [] | c # cs \<Rightarrow> ascii_upper c # map ascii_lower cs)"

definition abil_display :: "string \<Rightarrow> string" where
  "abil_display abil_name = map ascii_upper (take 3 (capitalize abil_name))"

definition render_ability :: "(string \<times> ability) list \<Rightarrow> string \<Rightarrow> string" where
  \<open>render_ability abils abil_name =
     (let abil_data = map_of abils abil_name;
          score_text = (case abil_data of None \<Rightarrow> ''10'' | Some a \<Rightarrow> score a);
          bonus_text = (case abil_data of None \<Rightarrow> ''0'' | Some a \<Rightarrow> bonus a);
          save_text = (case abil_data of None \<Rightarrow> ''0'' | Some a \<Rightarrow> save a);
          is_prof = (case abil_data of None \<Rightarrow> False | Some a \<Rightarrow> saveprof a)
      in ''                    <div class="stat-box">\<newline>''
         @ ''                        <h3>''
         @ abil_display abil_name
         @ ''</h3>\<newline>''
         @ ''                        <div class="ability-score">''
         @ escape_html score_text
         @ ''</div>\<newline>''
         @ ''                        <div class="ability-modifier">''
         @ format_modifier (PStr bonus_text)
         @ ''</div>\<newline>''
         @ ''                        <div class="save-box">\<newline>''
         @ ''                            SAVE ''
         @ format_modifier (PStr save_text)
         @ '' ''
         @ (if is_prof then glyph_check else [])
         @ ''\<newline>''
         @ ''                        </div>\<newline>''
         @ ''                    </div>\<newline>'')\<close>

definition render_abilities :: "character \<Rightarrow> string" where
  "render_abilities m = concat (map (render_ability (abilities m)) ability_names)"

text \<open>Lines 758 to 769.\<close>

definition skills_open :: string where
  \<open>skills_open =
     ''                    <div class="stat-box">\<newline>''
     @ ''                        <h3>Skills</h3>\<newline>''
     @ ''                        <div style="text-align: left; font-size: 0.85em;">\<newline>''\<close>

definition render_skill :: "skill \<Rightarrow> string" where
  \<open>render_skill sk =
     (let prof_indicator = (if skill_prof sk then glyph_filled else glyph_hollow)
      in ''                            <div class="skill-item">\<newline>''
         @ ''                                <span>''
         @ prof_indicator
         @ '' ''
         @ escape_html (skill_name sk)
         @ ''</span>\<newline>''
         @ ''                                <span>''
         @ format_modifier (PStr (skill_total sk))
         @ ''</span>\<newline>''
         @ ''                            </div>\<newline>'')\<close>

definition render_skills :: "skill list \<Rightarrow> string" where
  "render_skills sks = concat (map render_skill sks)"

text \<open>Lines 771 to 815: hit points, combat statistics, and the opening of the feature list.\<close>

definition render_vitals :: "character \<Rightarrow> string" where
  \<open>render_vitals m =
     ''                        </div>\<newline>''
     @ ''                    </div>\<newline>''
     @ ''                </div>\<newline>''
     @ ''                \<newline>''
     @ ''                <div style="display: grid; grid-template-columns: 1fr 1fr; gap: 15px;">\<newline>''
     @ ''                    <div class="section">\<newline>''
     @ ''                        <h2>Hit Points</h2>\<newline>''
     @ ''                        <div class="hp-box">\<newline>''
     @ ''                            <div class="hp-total">''
     @ escape_html (hp_total m)
     @ ''</div>\<newline>''
     @ ''                            <div class="hp-current">Current HP</div>\<newline>''
     @ ''                            <div class="hp-details">\<newline>''
     @ ''                                <div style="display: flex; align-items: center; gap: 10px;">\<newline>''
     @ ''                                    <span>Wounds:</span>\<newline>''
     @ ''                                    <input type="text" value=''
     @ [CHR 0x27]
     @ hp_wounds m
     @ [CHR 0x27]
     @ '' style="width: 60px; padding: 4px; border: 1px solid #8b6914; text-align: center;">\<newline>''
     @ ''                                </div>\<newline>''
     @ ''                                <div style="display: flex; align-items: center; gap: 10px;">\<newline>''
     @ ''                                    <span>Temp:</span>\<newline>''
     @ ''                                    <input type="text" value=''
     @ [CHR 0x27]
     @ hp_temp m
     @ [CHR 0x27]
     @ '' style="width: 60px; padding: 4px; border: 1px solid #8b6914; text-align: center;">\<newline>''
     @ ''                                </div>\<newline>''
     @ ''                            </div>\<newline>''
     @ ''                        </div>\<newline>''
     @ ''                    </div>\<newline>''
     @ ''                    \<newline>''
     @ ''                    <div class="section">\<newline>''
     @ ''                        <h2>Combat Stats</h2>\<newline>''
     @ ''                        <div style="text-align: center; padding: 15px;">\<newline>''
     @ ''                            <div style="margin-bottom: 15px;">\<newline>''
     @ ''                                <strong>Armor Class:</strong>\<newline>''
     @ ''                                <div style="font-size: 1.8em; font-weight: bold; color: #8b6914;">''
     @ escape_html (ac_total m)
     @ ''</div>\<newline>''
     @ ''                            </div>\<newline>''
     @ ''                            <div style="margin-bottom: 15px;">\<newline>''
     @ ''                                <strong>Initiative:</strong>\<newline>''
     @ ''                                <div style="font-size: 1.5em; font-weight: bold; color: #8b6914;">''
     @ format_modifier (PStr (initiative m))
     @ ''</div>\<newline>''
     @ ''                            </div>\<newline>''
     @ ''                            <div>\<newline>''
     @ ''                                <strong>Speed:</strong>\<newline>''
     @ ''                                <div style="font-size: 1.5em; font-weight: bold; color: #8b6914;">''
     @ escape_html (speed_total m)
     @ '' ft</div>\<newline>''
     @ ''                            </div>\<newline>''
     @ ''                        </div>\<newline>''
     @ ''                    </div>\<newline>''
     @ ''                    \<newline>''
     @ ''                    <div class="section">\<newline>''
     @ ''                        <h2>Features</h2>\<newline>''
     @ ''                        <ul class="features-list">\<newline>''\<close>

text \<open>Lines 817 to 851.\<close>

definition render_feature :: "feature \<Rightarrow> string" where
  \<open>render_feature f =
     ''                            <li><strong>''
     @ escape_html (feature_name f)
     @ ''</strong> (Lvl ''
     @ escape_html (feature_level f)
     @ '')</li>\<newline>''\<close>

definition render_features :: "feature list \<Rightarrow> string" where
  \<open>render_features fs =
     concat (map render_feature fs)
     @ (if fs = [] then
        ''                            <li><em>No features</em></li>\<newline>''
      else [])
     @ ''                        </ul>\<newline>''
     @ ''                    </div>\<newline>''
     @ ''                    \<newline>''
     @ ''                    <div class="section">\<newline>''
     @ ''                        <h2>Feats</h2>\<newline>''
     @ ''                        <ul class="feats-list">\<newline>''\<close>

definition render_feat :: "feat \<Rightarrow> string" where
  \<open>render_feat f =
     ''                            <li><strong>''
     @ escape_html (feat_name f)
     @ ''</strong></li>\<newline>''\<close>

definition render_feats :: "feat list \<Rightarrow> string" where
  \<open>render_feats fs =
     concat (map render_feat fs)
     @ (if fs = [] then
        ''                            <li><em>No feats</em></li>\<newline>''
      else [])
     @ ''                        </ul>\<newline>''
     @ ''                    </div>\<newline>''
     @ ''                </div>\<newline>''
     @ ''            </div>\<newline>''
     @ ''        </div>\<newline>''
     @ ''        \<newline>''
     @ ''        <div class="page">\<newline>''
     @ ''            <div class="section">\<newline>''
     @ ''                <h2>Equipment</h2>\<newline>''
     @ ''                <ul class="inventory-list">\<newline>''\<close>

text \<open>Lines 853 to 870.\<close>

definition render_item :: "item \<Rightarrow> string" where
  \<open>render_item it =
     (let count_text = (if item_count it \<noteq> ''1'' then '' x'' @ item_count it else [])
      in ''                    <li>\<newline>''
         @ ''                        <span>''
         @ escape_html (item_name it)
         @ escape_html count_text
         @ ''</span>\<newline>''
         @ ''                    </li>\<newline>'')\<close>

definition render_inventory :: "item list \<Rightarrow> string" where
  \<open>render_inventory its =
     concat (map render_item its)
     @ (if its = [] then
        ''                    <li><em>No equipment</em></li>\<newline>''
      else [])
     @ ''                </ul>\<newline>''
     @ ''            </div>\<newline>''
     @ ''            \<newline>''
     @ ''            <div class="section">\<newline>''
     @ ''                <h2>Wealth</h2>\<newline>''
     @ ''                <div class="coins">\<newline>''\<close>

text \<open>Lines 872 to 886.\<close>

definition coin_order :: "string list" where
  "coin_order = [''PP'', ''GP'', ''EP'', ''SP'', ''CP'']"

definition render_coin :: "(string \<times> string) list \<Rightarrow> string \<Rightarrow> string" where
  \<open>render_coin cs coin_type =
     (let coin_value = (case map_of cs coin_type of None \<Rightarrow> ''0'' | Some v \<Rightarrow> v)
      in ''                    <div class="coin-item">\<newline>''
         @ ''                        <strong>''
         @ coin_type
         @ ''</strong>\<newline>''
         @ ''                        <input type="text" value="''
         @ escape_html coin_value
         @ ''" />\<newline>''
         @ ''                    </div>\<newline>'')\<close>

definition render_coins :: "(string \<times> string) list \<Rightarrow> string" where
  \<open>render_coins cs =
     concat (map (render_coin cs) coin_order)
     @ ''                </div>\<newline>''
     @ ''            </div>\<newline>''
     @ ''        </div>\<newline>''
     @ ''        \<newline>''
     @ ''        <div class="page">\<newline>''\<close>

text \<open>
  Lines 888 to 932: the spell slots. \<open>collect\<close> runs a block that may raise over a list and
  joins the text, leaving at the first exception.
\<close>

fun collect :: "('a \<Rightarrow> error + string) \<Rightarrow> 'a list \<Rightarrow> error + string" where
  "collect f [] = Inr []"
| "collect f (x # xs) =
     (case f x of
        Inl e \<Rightarrow> Inl e
      | Inr h \<Rightarrow> (case collect f xs of Inl e \<Rightarrow> Inl e | Inr hs \<Rightarrow> Inr (h @ hs)))"

definition int_key :: "string \<Rightarrow> error + int" where
  "int_key k = (case py_int k of Some n \<Rightarrow> Inr n | None \<Rightarrow> Inl (ValueError k))"

definition render_marker :: "bool \<Rightarrow> string" where
  \<open>render_marker is_checked =
     ''                                <input type="checkbox" ''
     @ (if is_checked then ''checked'' else [])
     @ ''>\<newline>''\<close>

definition slot_level_open :: "string \<Rightarrow> string" where
  \<open>slot_level_open level =
     ''                        <div class="spell-slot-level">\<newline>''
     @ ''                            <strong>Level ''
     @ level
     @ '':</strong>\<newline>''
     @ ''                            <div class="spell-slot-bubbles">\<newline>''\<close>

definition slot_level_close :: string where
  \<open>slot_level_close =
     ''                            </div>\<newline>''
     @ ''                        </div>\<newline>''\<close>

definition render_slot_level :: "(string \<times> slot) list \<Rightarrow> string \<Rightarrow> error + string" where
  "render_slot_level slots level =
     (case map_of slots level of
        None \<Rightarrow> Inl (KeyError level)
      | Some sl \<Rightarrow>
          (case py_int (max_slots sl) of
             None \<Rightarrow> Inl (ValueError (max_slots sl))
           | Some mx \<Rightarrow>
               (case py_int (used_slots sl) of
                  None \<Rightarrow> Inl (ValueError (used_slots sl))
                | Some us \<Rightarrow>
                    Inr (slot_level_open level
                         @ concat (map (\<lambda>i. render_marker (int i < us)) [0..<nat mx])
                         @ slot_level_close))))"

definition slots_open :: string where
  \<open>slots_open =
     ''            <div class="section">\<newline>''
     @ ''                <h2>Spell Slots</h2>\<newline>''
     @ ''                <div style="display: grid; grid-template-columns: 1fr 1fr; gap: 30px;">\<newline>''
     @ ''                    <div>\<newline>''\<close>

definition slots_middle :: string where
  \<open>slots_middle =
     ''                    </div>\<newline>''
     @ ''                    <div>\<newline>''\<close>

definition slots_close :: string where
  \<open>slots_close =
     ''                    </div>\<newline>''
     @ ''                </div>\<newline>''
     @ ''            </div>\<newline>''\<close>

definition render_spell_slots :: "(string \<times> slot) list \<Rightarrow> error + string" where
  "render_spell_slots slots =
     (if slots = [] then Inr []
      else
        (case py_sorted int_key (map fst slots) of
           Inl e \<Rightarrow> Inl e
         | Inr spell_levels \<Rightarrow>
             (let mid_point = (length spell_levels + 1) div 2
              in case collect (render_slot_level slots) (take mid_point spell_levels) of
                   Inl e \<Rightarrow> Inl e
                 | Inr column_one \<Rightarrow>
                     (case collect (render_slot_level slots) (drop mid_point spell_levels) of
                        Inl e \<Rightarrow> Inl e
                      | Inr column_two \<Rightarrow>
                          Inr (slots_open @ column_one @ slots_middle @ column_two
                               @ slots_close)))))"

text \<open>Lines 934 to 979: the spells, grouped by level.\<close>

definition group_label :: "spell \<Rightarrow> string" where
  "group_label sp =
     (if spell_level sp \<noteq> [] \<and> spell_level sp \<noteq> ''0'' then spell_level sp else ''Cantrip'')"

fun group_add :: "string \<Rightarrow> spell \<Rightarrow> (string \<times> spell list) list \<Rightarrow> (string \<times> spell list) list" where
  "group_add level sp [] = [(level, [sp])]"
| "group_add level sp ((k, v) # rest) =
     (if k = level then (k, v @ [sp]) # rest else (k, v) # group_add level sp rest)"

fun group_loop :: "spell list \<Rightarrow> (string \<times> spell list) list \<Rightarrow> (string \<times> spell list) list" where
  "group_loop [] spells_by_level = spells_by_level"
| "group_loop (sp # rest) spells_by_level =
     group_loop rest (group_add (group_label sp) sp spells_by_level)"

definition level_order_key :: "string \<Rightarrow> error + (bool \<times> int)" where
  "level_order_key x =
     (if py_isdigit x
      then (case py_int x of
              Some n \<Rightarrow> Inr (x \<noteq> ''Cantrip'', n)
            | None \<Rightarrow> Inl (ValueError x))
      else Inr (x \<noteq> ''Cantrip'', 0))"

definition render_spell :: "spell \<Rightarrow> string" where
  \<open>render_spell sp =
     (let prepared_mark =
            (if spell_prepared sp \<noteq> [] \<and> spell_prepared sp \<noteq> ''0'' then glyph_filled
             else glyph_hollow)
      in ''                    <div style="background: #f5f1e8; padding: 8px; border-radius: 3px; border-left: 3px solid #8b6914; margin-bottom: 8px;">\<newline>''
         @ ''                        <div><strong>''
         @ prepared_mark
         @ '' ''
         @ escape_html (spell_name sp)
         @ ''</strong></div>\<newline>''
         @ (if spell_school sp \<noteq> [] then
              ''                        <div style="font-size: 0.85em;"><strong>School:</strong> ''
              @ escape_html (spell_school sp)
              @ ''</div>\<newline>''
            else [])
         @ (if spell_description sp \<noteq> [] then
              ''                        <div class="spell-description">''
              @ spell_description sp
              @ ''</div>\<newline>''
            else [])
         @ ''                    </div>\<newline>'')\<close>

definition render_spell_group :: "(string \<times> spell list) list \<Rightarrow> string \<Rightarrow> error + string" where
  \<open>render_spell_group spells_by_level level =
     (case map_of spells_by_level level of
        None \<Rightarrow> Inl (KeyError level)
      | Some level_spells \<Rightarrow>
          Inr (''                <div class="spell-level-toggle" onclick="toggleSpell(this)">\<newline>''
               @ ''                    <h3>Level ''
               @ escape_html level
               @ '' (''
               @ str_nat (length level_spells)
               @ '' spells)</h3>\<newline>''
               @ ''                    <span>''
               @ glyph_down
               @ ''</span>\<newline>''
               @ ''                </div>\<newline>''
               @ ''                <div class="spell-level-content">\<newline>''
               @ concat (map render_spell level_spells)
               @ ''                </div>\<newline>''))\<close>

definition spells_open :: string where
  \<open>spells_open =
     ''            <div class="section">\<newline>''
     @ ''                <h2>Spells</h2>\<newline>''\<close>

definition spells_close :: string where
  \<open>spells_close =
     ''                <script>\<newline>''
     @ ''                function toggleSpell(elem) {\<newline>''
     @ ''                    const content = elem.nextElementSibling;\<newline>''
     @ ''                    content.classList.toggle(''
     @ [CHR 0x27]
     @ ''active''
     @ [CHR 0x27]
     @ '');\<newline>''
     @ ''                }\<newline>''
     @ ''                </script>\<newline>''
     @ ''            </div>\<newline>''\<close>

definition render_spells :: "spell list \<Rightarrow> error + string" where
  "render_spells sps =
     (if sps = [] then Inr []
      else
        (let spells_by_level = group_loop sps []
         in case py_sorted level_order_key (map fst spells_by_level) of
              Inl e \<Rightarrow> Inl e
            | Inr level_order \<Rightarrow>
                (case collect (render_spell_group spells_by_level) level_order of
                   Inl e \<Rightarrow> Inl e
                 | Inr groups \<Rightarrow> Inr (spells_open @ groups @ spells_close))))"

text \<open>Lines 981 to 986, and the document as a whole.\<close>

definition document_close :: string where
  \<open>document_close =
     ''        </div>\<newline>''
     @ ''    </div>\<newline>''
     @ ''</body>\<newline>''
     @ ''</html>''\<close>

definition render :: "string \<Rightarrow> character \<Rightarrow> error + string" where
  "render css m =
     (case render_spell_slots (spell_slots m) of
        Inl e \<Rightarrow> Inl e
      | Inr slots_html \<Rightarrow>
          (case render_spells (spells m) of
             Inl e \<Rightarrow> Inl e
           | Inr spells_html \<Rightarrow>
               Inr (render_head css m @ render_header_info m @ render_abilities m
                    @ skills_open @ render_skills (skills m) @ render_vitals m
                    @ render_features (features m) @ render_feats (feats m)
                    @ render_inventory (inventory m) @ render_coins (coins m)
                    @ slots_html @ spells_html @ document_close)))"

section \<open>The program\<close>

text \<open>
  \<open>parse_fgu_character_to_html\<close>, lines 88 to 989. \<open>ET.fromstring\<close> belongs to the standard
  library: its outcome on the input bytes, the root of the tree or the text of the parse
  error, is the argument \<open>parsed\<close>. The result is the document, or the error whose message
  the program returns in place of it.
\<close>

definition parse_fgu_character_to_html ::
  "string \<Rightarrow> (element \<Rightarrow> string) \<Rightarrow> string + element \<Rightarrow> error + string" where
  "parse_fgu_character_to_html css tostring parsed =
     (case parsed of
        Inl msg \<Rightarrow> Inl (ParseError msg)
      | Inr root \<Rightarrow>
          (case extract_model tostring root of
             Inl e \<Rightarrow> Inl e
           | Inr m \<Rightarrow> render css m))"

section \<open>Vocabulary of the properties\<close>

text \<open>
  The numeric level of a class element: the integer its level text denotes, and 0 when the
  text does not parse as an integer.
\<close>

definition numeric_level :: "element \<Rightarrow> int" where
  "numeric_level cls =
     (case py_int (safe_get_text (Some cls) [''level''] []) of Some n \<Rightarrow> n | None \<Rightarrow> 0)"

definition class_elements :: "element \<Rightarrow> element list" where
  "class_elements char = child_list (find char [''classes''])"

text \<open>
  The powers of a character, and the test of the specification for a power to count as a
  spell: its group label contains the marker \<open>Spells\<close> or it declares a school, and it has a
  level.
\<close>

definition power_elements :: "element \<Rightarrow> element list" where
  "power_elements char = child_list (find char [''powers''])"

definition qualifies_as_spell :: "element \<Rightarrow> bool" where
  "qualifies_as_spell pw =
     ((py_contains ''Spells'' (safe_get_text (Some pw) [''group''] [])
         \<or> safe_get_text (Some pw) [''school''] [] \<noteq> [])
      \<and> safe_get_text (Some pw) [''level''] [] \<noteq> [])"

text \<open>
  The rank of a spell level in the sort: the number it denotes when it is written in digits,
  and 99 otherwise.
\<close>

definition level_rank :: "string \<Rightarrow> int" where
  "level_rank s = (case (if py_isdigit s then py_int s else None) of Some n \<Rightarrow> n | None \<Rightarrow> 99)"

text \<open>The skill entries in the order of the source.\<close>

definition source_skills :: "element \<Rightarrow> skill list" where
  "source_skills char = map skill_entry (child_list (find char [''skilllist'']))"

text \<open>
  The slot section in the words of the specification: the number a slot level denotes, the
  markers of a level with \<open>mx\<close> slots of which \<open>us\<close> are used, and the block of one level.
\<close>

definition slot_number :: "string \<Rightarrow> int" where
  "slot_number level = (case py_int level of Some n \<Rightarrow> n | None \<Rightarrow> 0)"

definition markers_spec :: "int \<Rightarrow> int \<Rightarrow> bool list" where
  "markers_spec mx us =
     replicate (min (nat us) (nat mx)) True @ replicate (nat mx - nat us) False"

definition slot_block :: "(string \<times> slot) list \<Rightarrow> string \<Rightarrow> string" where
  "slot_block slots level =
     (case map_of slots level of
        None \<Rightarrow> []
      | Some sl \<Rightarrow>
          (case (py_int (max_slots sl), py_int (used_slots sl)) of
             (Some mx, Some us) \<Rightarrow>
               slot_level_open level @ concat (map render_marker (markers_spec mx us))
               @ slot_level_close
           | _ \<Rightarrow> []))"

definition slot_numbers_known :: "(string \<times> slot) list \<Rightarrow> string \<Rightarrow> bool" where
  "slot_numbers_known slots level =
     (case map_of slots level of
        None \<Rightarrow> False
      | Some sl \<Rightarrow> py_int (max_slots sl) \<noteq> None \<and> py_int (used_slots sl) \<noteq> None)"

text \<open>
  The flattening in the words of the specification. A line is kept when it is blank after
  trimming, or when no earlier line has the same trimmed content; \<open>flattened_as_stated\<close>
  joins the kept lines of the leading text followed by the serialized children.
\<close>

definition leading_text :: "element \<Rightarrow> string" where
  "leading_text e = (case etext e of None \<Rightarrow> [] | Some t \<Rightarrow> t)"

definition keeps :: "string list \<Rightarrow> nat \<Rightarrow> bool" where
  "keeps ls i =
     (py_strip (ls ! i) = [] \<or> py_strip (ls ! i) \<notin> set (map py_strip (take i ls)))"

definition kept_lines :: "string list \<Rightarrow> string list" where
  "kept_lines ls = map (nth ls) (filter (keeps ls) [0..<length ls])"

definition flattened_as_stated :: "(element \<Rightarrow> string) \<Rightarrow> element \<Rightarrow> string" where
  "flattened_as_stated tostring e =
     py_join [CHR 0x0A]
       (kept_lines (split_lines (leading_text e @ concat (map tostring (children e)))))"

text \<open>
  The text of the slot section as the specification describes it: a marker is a check box,
  checked or not; the block of a level with \<open>mx\<close> slots of which \<open>us\<close> are used is its
  heading followed by the checked markers and then the unchecked ones; a column holds the
  blocks of its levels; the section holds column one and column two.
\<close>

definition checked_marker :: string where
  \<open>checked_marker = ''                                <input type="checkbox" checked>\<newline>''\<close>

definition unchecked_marker :: string where
  \<open>unchecked_marker = ''                                <input type="checkbox" >\<newline>''\<close>

definition marker_row :: "int \<Rightarrow> int \<Rightarrow> string" where
  "marker_row mx us =
     concat (replicate (min (nat us) (nat mx)) checked_marker)
     @ concat (replicate (nat mx - nat us) unchecked_marker)"

definition level_block :: "string \<Rightarrow> int \<Rightarrow> int \<Rightarrow> string" where
  \<open>level_block level mx us =
     ''                        <div class="spell-slot-level">\<newline>''
     @ ''                            <strong>Level '' @ level @ '':</strong>\<newline>''
     @ ''                            <div class="spell-slot-bubbles">\<newline>''
     @ marker_row mx us
     @ ''                            </div>\<newline>''
     @ ''                        </div>\<newline>''\<close>

definition slot_level_text :: "(string \<times> slot) list \<Rightarrow> string \<Rightarrow> string" where
  "slot_level_text slots level =
     (case map_of slots level of
        None \<Rightarrow> []
      | Some sl \<Rightarrow>
          (case (py_int (max_slots sl), py_int (used_slots sl)) of
             (Some mx, Some us) \<Rightarrow> level_block level mx us
           | _ \<Rightarrow> []))"

definition slot_column :: "string list \<Rightarrow> string" where
  \<open>slot_column blocks =
     ''                    <div>\<newline>''
     @ concat blocks
     @ ''                    </div>\<newline>''\<close>

definition slot_section :: "string list \<Rightarrow> string list \<Rightarrow> string" where
  \<open>slot_section column_one column_two =
     ''            <div class="section">\<newline>''
     @ ''                <h2>Spell Slots</h2>\<newline>''
     @ ''                <div style="display: grid; grid-template-columns: 1fr 1fr; gap: 30px;">\<newline>''
     @ slot_column column_one
     @ slot_column column_two
     @ ''                </div>\<newline>''
     @ ''            </div>\<newline>''\<close>

text \<open>The row of one skill: the proficiency mark and the name, then the signed total.\<close>

definition skill_row :: "skill \<Rightarrow> string" where
  \<open>skill_row sk =
     ''                            <div class="skill-item">\<newline>''
     @ ''                                <span>''
     @ (if skill_prof sk then glyph_filled else glyph_hollow) @ '' '' @ escape_html (skill_name sk)
     @ ''</span>\<newline>''
     @ ''                                <span>'' @ format_modifier (PStr (skill_total sk))
     @ ''</span>\<newline>''
     @ ''                            </div>\<newline>''\<close>

text \<open>
  The values that stand in for a text the source does not have: the empty string and the
  defaults passed to \<open>safe_get_text\<close> or used for a missing section.
\<close>

definition default_values :: "string list" where
  "default_values = [[], ''0'', ''1'', ''10'', ''30'']"

text \<open>Every slot entry has a key, a maximum and a used count that are not empty.\<close>

definition slot_texts_present :: "(string \<times> slot) list \<Rightarrow> bool" where
  "slot_texts_present slots =
     (\<forall>(k, sl) \<in> set slots. k \<noteq> [] \<and> max_slots sl \<noteq> [] \<and> used_slots sl \<noteq> [])"

text \<open>Small trees for the examples: an element holding only text, and one holding only children.\<close>

definition leaf :: "string \<Rightarrow> string \<Rightarrow> element" where
  "leaf t s = Element t [] (Some s) [] None"

definition node :: "string \<Rightarrow> element list \<Rightarrow> element" where
  "node t cs = Element t [] None cs None"

text \<open>Whether a run returned a value rather than an error.\<close>

definition succeeds :: "error + 'a \<Rightarrow> bool" where
  "succeeds r = (case r of Inl e \<Rightarrow> False | Inr v \<Rightarrow> True)"

text \<open>Trees of the examples.\<close>

definition fighter_wizard :: element where
  "fighter_wizard =
     node ''character'' [node ''classes''
       [node ''id-00001'' [leaf ''name'' ''Fighter'', leaf ''level'' ''3''],
        node ''id-00002'' [leaf ''name'' ''Wizard'', leaf ''level'' ''2'']]]"

definition odd_level :: element where
  "odd_level =
     node ''character'' [node ''classes''
       [node ''id-00001'' [leaf ''name'' ''Fighter'', leaf ''level'' ''abc'']]]"

definition bad_slot :: element where
  "bad_slot =
     node ''character'' [node ''powermeta'' [node ''spellslots1'' [leaf ''max'' ''x'']]]"

definition sorcerer :: element where
  "sorcerer =
     node ''character'' [leaf ''name'' ''Ada'', node ''powers''
       [node ''id-00001'' [leaf ''name'' ''Sorcery Points'', leaf ''prepared'' ''5'',
          leaf ''locked'' ''2'']]]"

definition no_sorcerer :: element where
  "no_sorcerer =
     node ''character'' [leaf ''name'' ''Ada'', node ''powers''
       [node ''id-00001'' [leaf ''name'' ''Sorcery Points'']]]"

definition spellbook :: element where
  "spellbook =
     node ''character'' [node ''powers''
       [node ''id-00001'' [leaf ''name'' ''Shield'', leaf ''level'' ''1'',
          leaf ''school'' ''Abjuration''],
        node ''id-00002'' [leaf ''name'' ''Fire Bolt'', leaf ''level'' ''0'',
          leaf ''group'' ''Spells (Wizard)''],
        node ''id-00003'' [leaf ''name'' ''Second Wind'', leaf ''group'' ''Class Features''],
        node ''id-00004'' [leaf ''name'' ''Aid'', leaf ''level'' ''x'',
          leaf ''school'' ''Abjuration''],
        node ''id-00005'' [leaf ''name'' ''Alarm'', leaf ''level'' ''1'',
          leaf ''group'' ''Spells'']]]"

definition three_skills :: element where
  "three_skills =
     node ''character'' [node ''skilllist''
       [node ''id-00001'' [leaf ''name'' ''Stealth'', leaf ''total'' ''5''],
        node ''id-00002'' [leaf ''name'' ''Arcana'', leaf ''total'' ''2''],
        node ''id-00003'' [leaf ''name'' ''Perception'', leaf ''total'' ''3'']]]"

definition twin_skills :: element where
  "twin_skills =
     node ''character'' [node ''skilllist''
       [node ''id-00001'' [leaf ''name'' ''Stealth'', leaf ''total'' ''5''],
        node ''id-00002'' [leaf ''name'' ''Stealth'', leaf ''total'' ''2'']]]"

definition three_slots :: "(string \<times> slot) list" where
  "three_slots =
     [(''1'', \<lparr>max_slots = ''4'', used_slots = ''2''\<rparr>),
      (''2'', \<lparr>max_slots = ''3'', used_slots = ''0''\<rparr>),
      (''3'', \<lparr>max_slots = ''2'', used_slots = ''2''\<rparr>)]"

definition repeated_lines :: element where
  "repeated_lines = leaf ''description'' '' a\<newline>  b\<newline>\<newline>a \<newline>c\<newline> ''"

definition blank_before_repeat :: element where
  "blank_before_repeat = leaf ''description'' ''a\<newline>\<newline>a''"

definition superscript_level :: element where
  "superscript_level =
     node ''character'' [node ''powers''
       [node ''id-00001'' [leaf ''name'' ''Augury'', leaf ''level'' [CHR 0xB2],
          leaf ''school'' ''Divination'']]]"

text \<open>A wounds text that closes the attribute it is written into.\<close>

definition payload :: string where
  "payload = [CHR 0x27] @ ''><script>alert(1)</script>''"

definition injected :: element where
  "injected = node ''character'' [node ''hp'' [leaf ''wounds'' payload]]"

section \<open>Exceptions\<close>

lemma keys_of_Inl: "keys_of key xs = Inl e \<Longrightarrow> \<exists>x \<in> set xs. key x = Inl e"
  by (induction xs) (auto split: sum.splits)

lemma keys_of_Inr: "keys_of key xs = Inr ks \<Longrightarrow> map key xs = map Inr ks"
  by (induction xs arbitrary: ks) (auto split: sum.splits)

lemma collect_Inl: "collect f xs = Inl e \<Longrightarrow> \<exists>x \<in> set xs. f x = Inl e"
  by (induction xs) (auto split: sum.splits)

lemma py_sorted_Inl: "py_sorted key xs = Inl e \<Longrightarrow> \<exists>x \<in> set xs. key x = Inl e"
  by (auto simp: py_sorted_def split: sum.splits dest: keys_of_Inl)

lemma render_spell_slots_error:
  "render_spell_slots slots = Inl e \<Longrightarrow> (\<exists>s. e = ValueError s) \<or> (\<exists>s. e = KeyError s)"
  by (auto simp: render_spell_slots_def render_slot_level_def int_key_def Let_def
      split: if_splits sum.splits option.splits dest!: py_sorted_Inl collect_Inl)

lemma render_spells_error:
  "render_spells sps = Inl e \<Longrightarrow> (\<exists>s. e = ValueError s) \<or> (\<exists>s. e = KeyError s)"
  by (auto simp: render_spells_def render_spell_group_def level_order_key_def Let_def
      split: if_splits sum.splits option.splits dest!: py_sorted_Inl collect_Inl)

lemma render_error:
  "render css m = Inl e \<Longrightarrow> (\<exists>s. e = ValueError s) \<or> (\<exists>s. e = KeyError s)"
  by (auto simp: render_def split: sum.splits dest: render_spell_slots_error render_spells_error)

lemma extract_model_error:
  "extract_model ts root = Inl e \<Longrightarrow>
     (e = MalformedInput no_character_message \<and> find root [''character''] = None) \<or>
     (find root [''character''] \<noteq> None \<and> (\<exists>s. e = ValueError s))"
  by (auto simp: extract_model_def Let_def spell_sort_key_def
      split: option.splits sum.splits if_splits dest!: py_sorted_Inl)

lemma extract_model_missing:
  "find root [''character''] = None \<Longrightarrow>
   extract_model ts root = Inl (MalformedInput no_character_message)"
  by (simp add: extract_model_def)

section \<open>Classes and the proficiency bonus\<close>

lemma classes_loop_total:
  "fst (classes_loop cs t infos) = t + sum_list (map numeric_level cs)"
  by (induction cs arbitrary: t infos) (auto simp: numeric_level_def split: option.splits)

lemma classes_loop_infos:
  "map cls_level (snd (classes_loop cs t infos)) =
     map cls_level infos @ map (\<lambda>cls. safe_get_text (Some cls) [''level''] []) cs"
  by (induction cs arbitrary: t infos) auto

lemma extract_classes:
  "extract_model ts root = Inr m \<Longrightarrow> find root [''character''] = Some char \<Longrightarrow>
   total_level m = fst (classes_loop (class_elements char) 0 []) \<and>
   classes_info m = snd (classes_loop (class_elements char) 0 []) \<and>
   prof_bonus m = get_proficiency_bonus (PInt (total_level m))"
  by (auto simp: extract_model_def class_elements_def Let_def split: option.splits sum.splits)

text \<open>
  C2, as the program has it. For every tree with a character record, the total level is the
  sum of the numeric levels of the class elements, a level that does not parse as an integer
  counting 0, and the proficiency bonus is \<open>2 + floor((total_level - 1) / 4)\<close> for every
  total level: nothing clamps it, so a total level of 0 gives 1.
\<close>

theorem proficiency_bonus_unclamped:
  assumes "extract_model tostring root = Inr m"
    and "find root [''character''] = Some char"
  shows "total_level m = sum_list (map numeric_level (class_elements char)) \<and>
         prof_bonus m = 2 + (total_level m - 1) div 4"
  using extract_classes [OF assms]
  by (simp add: classes_loop_total get_proficiency_bonus_def)

theorem proficiency_bonus_unclamped_witness:
  "succeeds (extract_model (\<lambda>e. []) (node ''root'' [fighter_wizard]))
   \<and> find (node ''root'' [fighter_wizard]) [''character''] = Some fighter_wizard
   \<and> map_sum id (\<lambda>m. (total_level m, prof_bonus m))
         (extract_model (\<lambda>e. []) (node ''root'' [fighter_wizard])) = Inr (5, 3)"
proof -
  let ?root = "node ''root'' [fighter_wizard]"
  have f: "find ?root [''character''] = Some fighter_wizard"
    by code_simp
  have s: "sum_list (map numeric_level (class_elements fighter_wizard)) = 5"
    by code_simp
  have ok: "succeeds (extract_model (\<lambda>e. []) ?root)"
    by code_simp
  then obtain m where m: "extract_model (\<lambda>e. []) ?root = Inr m"
    by (cases "extract_model (\<lambda>e. []) ?root") (auto simp: succeeds_def)
  from proficiency_bonus_unclamped [OF m f] s
  have "total_level m = 5 \<and> prof_bonus m = 3"
    by simp
  with m f ok show ?thesis
    by simp
qed

text \<open>
  C2 as the specification states it fails: a character without classes has total level 0,
  and its proficiency bonus is 1, not 2.
\<close>

theorem proficiency_bonus_level_zero:
  "map_sum id (\<lambda>m. (total_level m, prof_bonus m))
     (extract_model (\<lambda>e. []) (node ''root'' [node ''character'' []])) = Inr (0, 1)"
  by code_simp

text \<open>
  C9, as the program has it. The level field of every class entry is the level text of the
  source, the empty string when the source has none, kept as it is whether or not it parses
  as an integer; a level that does not parse counts 0 in the total level only.
\<close>

theorem class_level_is_source_text:
  assumes "extract_model tostring root = Inr m"
    and "find root [''character''] = Some char"
  shows "map cls_level (classes_info m) =
           map (\<lambda>cls. safe_get_text (Some cls) [''level''] []) (class_elements char)
         \<and> total_level m = sum_list (map numeric_level (class_elements char))"
  using extract_classes [OF assms]
  by (simp add: classes_loop_total classes_loop_infos)

theorem class_level_is_source_text_witness:
  "succeeds (extract_model (\<lambda>e. []) (node ''root'' [fighter_wizard]))
   \<and> find (node ''root'' [fighter_wizard]) [''character''] = Some fighter_wizard
   \<and> map_sum id (\<lambda>m. (map cls_level (classes_info m), total_level m))
         (extract_model (\<lambda>e. []) (node ''root'' [fighter_wizard])) = Inr ([''3'', ''2''], 5)"
proof -
  let ?root = "node ''root'' [fighter_wizard]"
  have f: "find ?root [''character''] = Some fighter_wizard"
    by code_simp
  have s: "sum_list (map numeric_level (class_elements fighter_wizard)) = 5"
    by code_simp
  have l: "map (\<lambda>cls. safe_get_text (Some cls) [''level''] []) (class_elements fighter_wizard)
             = [''3'', ''2'']"
    by code_simp
  have ok: "succeeds (extract_model (\<lambda>e. []) ?root)"
    by code_simp
  then obtain m where m: "extract_model (\<lambda>e. []) ?root = Inr m"
    by (cases "extract_model (\<lambda>e. []) ?root") (auto simp: succeeds_def)
  from class_level_is_source_text [OF m f] s l
  have "map cls_level (classes_info m) = [''3'', ''2''] \<and> total_level m = 5"
    by simp
  with m f ok show ?thesis
    by simp
qed

text \<open>
  C9 as the specification states it fails: a class whose level text is \<open>abc\<close> has that text
  as its level field, which is no integer and is not 0.
\<close>

theorem class_level_not_an_integer:
  "map_sum id (\<lambda>m. map cls_level (classes_info m))
     (extract_model (\<lambda>e. []) (node ''root'' [odd_level])) = Inr [''abc'']
   \<and> py_int ''abc'' = None"
  by code_simp

section \<open>The renderer can fail\<close>

text \<open>
  C4 fails on the program. The tree whose first slot level has the maximum \<open>x\<close> is accepted
  by the extraction, and rendering its model raises the \<open>ValueError\<close> of \<open>int('x')\<close> at
  line 899, which the handler of line 988 turns into an error return.
\<close>

theorem renderer_fails_on_slot_maximum:
  "(case extract_model (\<lambda>e. []) (node ''root'' [bad_slot]) of
      Inl e \<Rightarrow> False
    | Inr m \<Rightarrow> render [] m = Inl (ValueError ''x''))"
  by code_simp

section \<open>Sorcery points\<close>

lemma render_head_sorcery:
  "render_head css (m\<lparr>sorcery_points := sp\<rparr>) = render_head css m"
  by (simp add: render_head_def)

lemma render_header_info_sorcery:
  "render_header_info (m\<lparr>sorcery_points := sp\<rparr>) = render_header_info m"
  by (simp add: render_header_info_def race_display_def classes_str_def)

lemma render_abilities_sorcery:
  "render_abilities (m\<lparr>sorcery_points := sp\<rparr>) = render_abilities m"
  by (simp add: render_abilities_def)

lemma render_vitals_sorcery:
  "render_vitals (m\<lparr>sorcery_points := sp\<rparr>) = render_vitals m"
  by (simp add: render_vitals_def)

lemma render_sorcery: "render css (m\<lparr>sorcery_points := sp\<rparr>) = render css m"
  by (simp add: render_def render_head_sorcery render_header_info_sorcery
      render_abilities_sorcery render_vitals_sorcery split: sum.splits)

text \<open>
  C10. Two trees whose extracted models agree in everything but the sorcery points give the
  same result, document for document and error for error.
\<close>

theorem sorcery_points_never_rendered:
  assumes "extract_model tostring r1 = Inr m1"
    and "extract_model tostring r2 = Inr m2"
    and "m2 = m1\<lparr>sorcery_points := sorcery_points m2\<rparr>"
  shows "parse_fgu_character_to_html css tostring (Inr r1) =
         parse_fgu_character_to_html css tostring (Inr r2)"
proof -
  have "render css m2 = render css m1"
    using assms(3) render_sorcery [of css "sorcery_points m2" m1] by simp
  with assms(1,2) show ?thesis
    by (simp add: parse_fgu_character_to_html_def)
qed

theorem sorcery_points_never_rendered_witness:
  "map_sum id sorcery_points (extract_model (\<lambda>e. []) (node ''root'' [sorcerer]))
     = Inr (Some \<lparr>sorcery_max = ''5'', sorcery_used = ''2''\<rparr>)
   \<and> map_sum id sorcery_points (extract_model (\<lambda>e. []) (node ''root'' [no_sorcerer])) = Inr None
   \<and> parse_fgu_character_to_html [] (\<lambda>e. []) (Inr (node ''root'' [sorcerer])) =
     parse_fgu_character_to_html [] (\<lambda>e. []) (Inr (node ''root'' [no_sorcerer]))"
proof -
  let ?r1 = "node ''root'' [sorcerer]" and ?r2 = "node ''root'' [no_sorcerer]"
  have s1: "map_sum id sorcery_points (extract_model (\<lambda>e. []) ?r1)
              = Inr (Some \<lparr>sorcery_max = ''5'', sorcery_used = ''2''\<rparr>)"
    by code_simp
  have s2: "map_sum id sorcery_points (extract_model (\<lambda>e. []) ?r2) = Inr None"
    by code_simp
  have same: "(case (extract_model (\<lambda>e. []) ?r1, extract_model (\<lambda>e. []) ?r2) of
                 (Inr a, Inr b) \<Rightarrow> b = a\<lparr>sorcery_points := sorcery_points b\<rparr>
               | _ \<Rightarrow> False)"
    by code_simp
  then obtain m1 m2 where m: "extract_model (\<lambda>e. []) ?r1 = Inr m1"
      "extract_model (\<lambda>e. []) ?r2 = Inr m2" "m2 = m1\<lparr>sorcery_points := sorcery_points m2\<rparr>"
    by (auto split: sum.splits)
  from sorcery_points_never_rendered [OF m] s1 s2 show ?thesis
    by simp
qed

section \<open>Sorting\<close>

lemma keys_of_total:
  "(\<And>x. x \<in> set xs \<Longrightarrow> key x = Inr (k x)) \<Longrightarrow> keys_of key xs = Inr (map k xs)"
  by (induction xs) auto

lemma keys_of_Inr_total:
  "keys_of key xs = Inr ks \<Longrightarrow> \<exists>k. (\<forall>x \<in> set xs. key x = Inr (k x)) \<and> ks = map k xs"
proof (induction xs arbitrary: ks)
  case Nil
  then show ?case by simp
next
  case (Cons x xs)
  from Cons.prems obtain k0 ks0 where k0: "key x = Inr k0" and ks0: "keys_of key xs = Inr ks0"
    and ks: "ks = k0 # ks0"
    by (auto split: sum.splits)
  from Cons.IH [OF ks0] obtain k where k: "\<forall>x \<in> set xs. key x = Inr (k x)" "ks0 = map k xs"
    by blast
  let ?k = "\<lambda>y. if y = x then k0 else k y"
  have "\<forall>y \<in> set (x # xs). key y = Inr (?k y)"
    using k0 k(1) by auto
  moreover have "ks = map ?k (x # xs)"
    using ks k k0 by auto
  ultimately show ?case
    by (intro exI [where x = ?k]) simp
qed

lemma insort_key_decorated:
  "insort_key fst (k x, x) (map (\<lambda>y. (k y, y)) ys) = map (\<lambda>y. (k y, y)) (insort_key k x ys)"
  by (induction ys) auto

lemma sort_key_decorated:
  "sort_key fst (map (\<lambda>y. (k y, y)) xs) = map (\<lambda>y. (k y, y)) (sort_key k xs)"
  by (induction xs) (auto simp: insort_key_decorated)

lemma zip_decorated: "zip (map k xs) xs = map (\<lambda>y. (k y, y)) xs"
  by (induction xs) auto

lemma py_sorted_total:
  assumes "\<And>x. x \<in> set xs \<Longrightarrow> key x = Inr (k x)"
  shows "py_sorted key xs = Inr (sort_key k xs)"
  by (simp add: py_sorted_def keys_of_total [OF assms] zip_decorated sort_key_decorated comp_def)

lemma py_sorted_Inr:
  assumes "py_sorted key xs = Inr ys"
  shows "\<exists>k. (\<forall>x \<in> set xs. key x = Inr (k x)) \<and> ys = sort_key k xs"
proof -
  from assms obtain ks where ks: "keys_of key xs = Inr ks"
    by (auto simp: py_sorted_def split: sum.splits)
  from keys_of_Inr_total [OF ks] obtain k where k: "\<forall>x \<in> set xs. key x = Inr (k x)"
    by blast
  then have "py_sorted key xs = Inr (sort_key k xs)"
    by (intro py_sorted_total) simp
  with assms k show ?thesis by auto
qed

lemma insort_key_agree:
  "f x = g x \<Longrightarrow> (\<And>y. y \<in> set ys \<Longrightarrow> f y = g y) \<Longrightarrow> insort_key f x ys = insort_key g x ys"
  by (induction ys) auto

lemma sort_key_agree:
  "(\<And>x. x \<in> set xs \<Longrightarrow> f x = g x) \<Longrightarrow> sort_key f xs = sort_key g xs"
proof (induction xs)
  case Nil
  then show ?case by simp
next
  case (Cons x xs)
  have "sort_key f xs = sort_key g xs"
    using Cons by simp
  moreover have "insort_key f x (sort_key g xs) = insort_key g x (sort_key g xs)"
    using Cons.prems by (intro insort_key_agree) auto
  ultimately show ?case by simp
qed

lemma py_sorted_by:
  assumes "py_sorted key xs = Inr ys"
    and "\<And>x k. key x = Inr k \<Longrightarrow> k = g x"
  shows "ys = sort_key g xs"
proof -
  from py_sorted_Inr [OF assms(1)] obtain k where
    k: "\<forall>x \<in> set xs. key x = Inr (k x)" and ys: "ys = sort_key k xs"
    by blast
  have "sort_key k xs = sort_key g xs"
    using k assms(2) by (intro sort_key_agree) auto
  with ys show ?thesis by simp
qed

lemma pair_le_iff:
  fixes a c :: "'a::linorder" and b d :: "'b::linorder"
  shows "(a, b) \<le> (c, d) \<longleftrightarrow> a < c \<or> (a = c \<and> b \<le> d)"
  by (auto simp: less_eq_prod_def)

section \<open>Spells\<close>

lemma spells_loop_filter:
  "spells_loop ts ps kept = kept @ map (spell_entry ts) (filter qualifies_as_spell ps)"
  by (induction ps arbitrary: kept) (auto simp: qualifies_as_spell_def Let_def)

lemma extract_spells:
  "extract_model ts root = Inr m \<Longrightarrow> find root [''character''] = Some char \<Longrightarrow>
   py_sorted spell_sort_key (map (spell_entry ts) (filter qualifies_as_spell (power_elements char)))
     = Inr (spells m)"
  by (auto simp: extract_model_def power_elements_def spells_loop_filter Let_def
      split: option.splits sum.splits)

lemma spell_sort_key_Inr:
  "spell_sort_key x = Inr k \<Longrightarrow> k = (level_rank (spell_level x), spell_name x)"
  by (auto simp: spell_sort_key_def level_rank_def split: if_splits option.splits)

text \<open>
  When the extraction returns a model, its spell sequence holds exactly the entries of the
  powers that qualify as spells, and it is ordered by level rank, entries of equal rank by
  name: of two positions, the earlier has the smaller rank, or the same rank and a name that
  is not greater.
\<close>

theorem spells_filtered_and_sorted:
  assumes "extract_model tostring root = Inr m"
    and "find root [''character''] = Some char"
  shows "mset (spells m) =
           mset (map (spell_entry tostring) (filter qualifies_as_spell (power_elements char)))
         \<and> (\<forall>i j. i < j \<longrightarrow> j < length (spells m) \<longrightarrow>
               level_rank (spell_level (spells m ! i)) < level_rank (spell_level (spells m ! j))
               \<or> (level_rank (spell_level (spells m ! i)) = level_rank (spell_level (spells m ! j))
                  \<and> spell_name (spells m ! i) \<le> spell_name (spells m ! j)))"
proof -
  let ?src = "map (spell_entry tostring) (filter qualifies_as_spell (power_elements char))"
  let ?key = "\<lambda>x. (level_rank (spell_level x), spell_name x)"
  from py_sorted_Inr [OF extract_spells [OF assms]]
  obtain k where k: "\<forall>x \<in> set ?src. spell_sort_key x = Inr (k x)" and s: "spells m = sort_key k ?src"
    by blast
  have kk: "\<forall>x \<in> set ?src. k x = ?key x"
    using k spell_sort_key_Inr by blast
  have m: "mset (spells m) = mset ?src"
    using s by simp
  have "sorted (map k (spells m))"
    using s by (simp add: sorted_sort_key)
  moreover have "map k (spells m) = map ?key (spells m)"
    using kk s by (intro map_cong) auto
  ultimately have srt: "sorted (map ?key (spells m))"
    by simp
  have le: "?key (spells m ! i) \<le> ?key (spells m ! j)" if "i < j" "j < length (spells m)" for i j
    using srt that by (auto simp: sorted_iff_nth_mono_less)
  show ?thesis
  proof (intro conjI allI impI)
    show "mset (spells m) = mset ?src"
      by (fact m)
  next
    fix i j
    assume "i < j" "j < length (spells m)"
    from le [OF this]
    show "level_rank (spell_level (spells m ! i)) < level_rank (spell_level (spells m ! j))
          \<or> (level_rank (spell_level (spells m ! i)) = level_rank (spell_level (spells m ! j))
              \<and> spell_name (spells m ! i) \<le> spell_name (spells m ! j))"
      unfolding pair_le_iff .
  qed
qed


theorem spells_filtered_and_sorted_witness:
  "succeeds (extract_model (\<lambda>e. []) (node ''root'' [spellbook]))
   \<and> find (node ''root'' [spellbook]) [''character''] = Some spellbook
   \<and> map_sum id (\<lambda>m. mset (map spell_name (spells m)))
         (extract_model (\<lambda>e. []) (node ''root'' [spellbook]))
       = Inr (mset [''Shield'', ''Fire Bolt'', ''Aid'', ''Alarm''])
   \<and> map_sum id (\<lambda>m. map spell_name (spells m))
         (extract_model (\<lambda>e. []) (node ''root'' [spellbook]))
       = Inr [''Fire Bolt'', ''Alarm'', ''Shield'', ''Aid'']"
proof -
  let ?root = "node ''root'' [spellbook]"
  have f: "find ?root [''character''] = Some spellbook"
    by code_simp
  have ok: "succeeds (extract_model (\<lambda>e. []) ?root)"
    by code_simp
  then obtain m where m: "extract_model (\<lambda>e. []) ?root = Inr m"
    by (cases "extract_model (\<lambda>e. []) ?root") (auto simp: succeeds_def)
  have src: "map spell_name
               (map (spell_entry (\<lambda>e. [])) (filter qualifies_as_spell (power_elements spellbook)))
             = [''Shield'', ''Fire Bolt'', ''Aid'', ''Alarm'']"
    by code_simp
  have ord: "map_sum id (\<lambda>m. map spell_name (spells m)) (extract_model (\<lambda>e. []) ?root)
               = Inr [''Fire Bolt'', ''Alarm'', ''Shield'', ''Aid'']"
    by code_simp
  from spells_filtered_and_sorted [OF m f]
  have "mset (spells m) =
          mset (map (spell_entry (\<lambda>e. [])) (filter qualifies_as_spell (power_elements spellbook)))"
    by simp
  then have "image_mset spell_name (mset (spells m)) =
          mset (map spell_name
            (map (spell_entry (\<lambda>e. [])) (filter qualifies_as_spell (power_elements spellbook))))"
    by (simp only: mset_map)
  then have "mset (map spell_name (spells m)) = mset [''Shield'', ''Fire Bolt'', ''Aid'', ''Alarm'']"
    unfolding src by simp
  with m have "map_sum id (\<lambda>m. mset (map spell_name (spells m)))
                 (extract_model (\<lambda>e. []) ?root)
               = Inr (mset [''Shield'', ''Fire Bolt'', ''Aid'', ''Alarm''])"
    by simp
  with f ok ord show ?thesis
    by (intro conjI)
qed

text \<open>
  C6 fails on the program. A power that declares a school and has the level \<open>U+00B2\<close>, the
  superscript two, qualifies as a spell, and its level, which is no number, has rank 99; but
  \<open>isdigit()\<close> accepts the level and \<open>int()\<close> rejects it, so the sort of line 285 raises
  \<open>ValueError\<close> and no spell sequence is extracted.
\<close>

theorem spell_level_superscript_raises:
  "find (node ''root'' [superscript_level]) [''character''] = Some superscript_level
   \<and> map qualifies_as_spell (power_elements superscript_level) = [True]
   \<and> map (\<lambda>pw. level_rank (safe_get_text (Some pw) [''level''] []))
         (power_elements superscript_level) = [99]
   \<and> extract_model (\<lambda>e. []) (node ''root'' [superscript_level]) = Inl (ValueError [CHR 0xB2])"
  by code_simp


section \<open>Skills\<close>

lemma extract_skills_sorted:
  "extract_model ts root = Inr m \<Longrightarrow> find root [''character''] = Some char \<Longrightarrow>
   skills m = sort_key skill_name (source_skills char)"
  by (auto simp: extract_model_def extract_skills_def source_skills_def Let_def
      split: option.splits sum.splits)

lemma render_skill_row: "render_skill = skill_row"
  by (rule ext) (simp add: render_skill_def skill_row_def Let_def)

lemma render_head_skills: "render_head css (m\<lparr>skills := sks\<rparr>) = render_head css m"
  by (simp add: render_head_def)

lemma render_header_info_skills:
  "render_header_info (m\<lparr>skills := sks\<rparr>) = render_header_info m"
  by (simp add: render_header_info_def race_display_def classes_str_def)

lemma render_abilities_skills: "render_abilities (m\<lparr>skills := sks\<rparr>) = render_abilities m"
  by (simp add: render_abilities_def)

lemma render_vitals_skills: "render_vitals (m\<lparr>skills := sks\<rparr>) = render_vitals m"
  by (simp add: render_vitals_def)

lemma render_skills_only:
  assumes "render css m = Inr doc"
  shows "\<exists>pre post. \<forall>sks.
           render css (m\<lparr>skills := sks\<rparr>) = Inr (pre @ concat (map skill_row sks) @ post)"
proof -
  from assms obtain a b where a: "render_spell_slots (spell_slots m) = Inr a"
    and b: "render_spells (spells m) = Inr b"
    by (auto simp: render_def split: sum.splits)
  let ?pre = "render_head css m @ render_header_info m @ render_abilities m @ skills_open"
  let ?post = "render_vitals m @ render_features (features m) @ render_feats (feats m)
       @ render_inventory (inventory m) @ render_coins (coins m) @ a @ b @ document_close"
  have "render css (m\<lparr>skills := sks\<rparr>) = Inr (?pre @ concat (map skill_row sks) @ ?post)" for sks
    by (simp add: render_def a b render_head_skills render_header_info_skills
        render_abilities_skills render_vitals_skills render_skills_def render_skill_row)
  then show ?thesis
    by blast
qed

text \<open>
  C8, as the program has it. The rows of the skills are written in the order of the source
  sorted by name: the names never decrease, every source entry has its row, and entries of
  the same name keep the order of the source. Names may repeat, so the order is not strict.
  The rows stand together, and nothing else of the document depends on the skills: with any
  other skill list in the model, the text before and after the rows stays the same.
\<close>

theorem skills_rendered_in_name_order:
  assumes "parse_fgu_character_to_html css tostring (Inr root) = Inr doc"
    and "find root [''character''] = Some char"
  shows "\<exists>m rows pre post.
           extract_model tostring root = Inr m
           \<and> rows = sort_key skill_name (source_skills char)
           \<and> mset rows = mset (source_skills char)
           \<and> sorted (map skill_name rows)
           \<and> (\<forall>n. filter (\<lambda>s. skill_name s = n) rows
                    = filter (\<lambda>s. skill_name s = n) (source_skills char))
           \<and> doc = pre @ concat (map skill_row rows) @ post
           \<and> (\<forall>sks. render css (m\<lparr>skills := sks\<rparr>)
                      = Inr (pre @ concat (map skill_row sks) @ post))"
proof -
  from assms(1) obtain m where m: "extract_model tostring root = Inr m"
    and r: "render css m = Inr doc"
    by (auto simp: parse_fgu_character_to_html_def split: sum.splits)
  let ?rows = "sort_key skill_name (source_skills char)"
  have s: "skills m = ?rows"
    by (rule extract_skills_sorted [OF m assms(2)])
  from render_skills_only [OF r] obtain pre post where
    all: "\<forall>sks. render css (m\<lparr>skills := sks\<rparr>) = Inr (pre @ concat (map skill_row sks) @ post)"
    by blast
  have "m\<lparr>skills := ?rows\<rparr> = m"
    using s by simp
  then have "render css m = Inr (pre @ concat (map skill_row ?rows) @ post)"
    using all by metis
  then have d: "doc = pre @ concat (map skill_row ?rows) @ post"
    using r by simp
  have p: "mset ?rows = mset (source_skills char)" "sorted (map skill_name ?rows)"
    "\<forall>n. filter (\<lambda>s. skill_name s = n) ?rows = filter (\<lambda>s. skill_name s = n) (source_skills char)"
    by (simp_all add: sorted_sort_key sort_key_stable)
  show ?thesis
    using m p d all by blast
qed

theorem skills_rendered_in_name_order_witness:
  "succeeds (parse_fgu_character_to_html [] (\<lambda>e. []) (Inr (node ''root'' [three_skills])))
   \<and> find (node ''root'' [three_skills]) [''character''] = Some three_skills
   \<and> (\<exists>pre post.
         parse_fgu_character_to_html [] (\<lambda>e. []) (Inr (node ''root'' [three_skills]))
           = Inr (pre
                  @ skill_row \<lparr>skill_name = ''Arcana'', skill_total = ''2'', skill_prof = False,
                      skill_stat = []\<rparr>
                  @ skill_row \<lparr>skill_name = ''Perception'', skill_total = ''3'',
                      skill_prof = False, skill_stat = []\<rparr>
                  @ skill_row \<lparr>skill_name = ''Stealth'', skill_total = ''5'', skill_prof = False,
                      skill_stat = []\<rparr>
                  @ post))
   \<and> skill_row \<lparr>skill_name = ''Arcana'', skill_total = ''2'', skill_prof = False,
         skill_stat = []\<rparr>
       = ''                            <div class=\"skill-item\">\<newline>''
         @ ''                                <span>'' @ [CHR 0xE2, CHR 0x97, CHR 0x8B]
         @ '' Arcana</span>\<newline>''
         @ ''                                <span>+2</span>\<newline>''
         @ ''                            </div>\<newline>''"
proof -
  let ?root = "node ''root'' [three_skills]"
  have f: "find ?root [''character''] = Some three_skills"
    by code_simp
  have ok: "succeeds (parse_fgu_character_to_html [] (\<lambda>e. []) (Inr ?root))"
    by code_simp
  then obtain doc where d: "parse_fgu_character_to_html [] (\<lambda>e. []) (Inr ?root) = Inr doc"
    by (cases "parse_fgu_character_to_html [] (\<lambda>e. []) (Inr ?root)") (auto simp: succeeds_def)
  have n: "sort_key skill_name (source_skills three_skills)
             = [\<lparr>skill_name = ''Arcana'', skill_total = ''2'', skill_prof = False, skill_stat = []\<rparr>,
                \<lparr>skill_name = ''Perception'', skill_total = ''3'', skill_prof = False,
                   skill_stat = []\<rparr>,
                \<lparr>skill_name = ''Stealth'', skill_total = ''5'', skill_prof = False, skill_stat = []\<rparr>]"
    by code_simp
  have row: "skill_row \<lparr>skill_name = ''Arcana'', skill_total = ''2'', skill_prof = False,
         skill_stat = []\<rparr>
       = ''                            <div class=\"skill-item\">\<newline>''
         @ ''                                <span>'' @ [CHR 0xE2, CHR 0x97, CHR 0x8B]
         @ '' Arcana</span>\<newline>''
         @ ''                                <span>+2</span>\<newline>''
         @ ''                            </div>\<newline>''"
    by code_simp
  from skills_rendered_in_name_order [OF d f] obtain rows pre post where
    "doc = pre @ concat (map skill_row rows) @ post"
    "rows = sort_key skill_name (source_skills three_skills)"
    by blast
  then have "doc = pre
                  @ skill_row \<lparr>skill_name = ''Arcana'', skill_total = ''2'', skill_prof = False,
                      skill_stat = []\<rparr>
                  @ skill_row \<lparr>skill_name = ''Perception'', skill_total = ''3'',
                      skill_prof = False, skill_stat = []\<rparr>
                  @ skill_row \<lparr>skill_name = ''Stealth'', skill_total = ''5'', skill_prof = False,
                      skill_stat = []\<rparr>
                  @ post"
    unfolding n by simp
  with d have "\<exists>pre post.
         parse_fgu_character_to_html [] (\<lambda>e. []) (Inr ?root)
           = Inr (pre
                  @ skill_row \<lparr>skill_name = ''Arcana'', skill_total = ''2'', skill_prof = False,
                      skill_stat = []\<rparr>
                  @ skill_row \<lparr>skill_name = ''Perception'', skill_total = ''3'',
                      skill_prof = False, skill_stat = []\<rparr>
                  @ skill_row \<lparr>skill_name = ''Stealth'', skill_total = ''5'', skill_prof = False,
                      skill_stat = []\<rparr>
                  @ post)"
    by (simp only:) (intro exI, rule refl)
  with f ok row show ?thesis
    by (intro conjI)
qed

text \<open>
  C8 as the specification states it fails: two skills of the same name are both rendered,
  one after the other, and their names do not ascend strictly.
\<close>

theorem skills_not_strictly_ascending:
  "map_sum id (\<lambda>m. map (\<lambda>s. (skill_name s, skill_total s)) (skills m))
     (extract_model (\<lambda>e. []) (node ''root'' [twin_skills]))
     = Inr [(''Stealth'', ''5''), (''Stealth'', ''2'')]
   \<and> \<not> sorted_wrt (<) [''Stealth'', ''Stealth'']"
  by code_simp

section \<open>Spell slots\<close>

lemma markers_nat:
  "map (\<lambda>i. i < u) [0..<n] = replicate (min u n) True @ replicate (n - u) False"
proof (induction n)
  case 0
  then show ?case by simp
next
  case (Suc n)
  show ?case
  proof (cases "n < u")
    case True
    then have "min u (Suc n) = Suc n" "min u n = n" "Suc n - u = 0" "n - u = 0"
      by auto
    then show ?thesis
      using Suc True by (simp add: replicate_append_same)
  next
    case False
    then have "Suc n - u = Suc (n - u)" "min u (Suc n) = u" "min u n = u"
      by auto
    then show ?thesis
      using Suc False by (simp add: replicate_append_same)
  qed
qed

lemma markers_code: "map (\<lambda>i. int i < us) [0..<nat mx] = markers_spec mx us"
proof -
  have "(\<lambda>i. int i < us) = (\<lambda>i. i < nat us)"
    by (auto simp: fun_eq_iff)
  then show ?thesis
    by (simp add: markers_spec_def markers_nat)
qed

lemma markers_render:
  "map (\<lambda>i. render_marker (int i < us)) [0..<nat mx] = map render_marker (markers_spec mx us)"
  by (simp add: markers_code [symmetric] comp_def)

lemma render_slot_level_Inr:
  "render_slot_level slots level = Inr h \<Longrightarrow>
   h = slot_block slots level \<and> slot_numbers_known slots level"
  by (auto simp: render_slot_level_def slot_block_def slot_numbers_known_def markers_render
      split: option.splits)

lemma collect_slot_levels:
  "collect (render_slot_level slots) ls = Inr h \<Longrightarrow>
   h = concat (map (slot_block slots) ls) \<and> list_all (slot_numbers_known slots) ls"
  by (induction ls arbitrary: h) (auto split: sum.splits dest: render_slot_level_Inr)

lemma int_key_Inr: "int_key k = Inr n \<Longrightarrow> n = slot_number k"
  by (auto simp: int_key_def slot_number_def split: option.splits)

text \<open>
  The parts of the slot section: the levels in ascending numeric order, the first
  \<open>ceil(k/2)\<close> of the \<open>k\<close> levels before the middle and the others after it.
\<close>

theorem slot_section_layout:
  assumes "render_spell_slots slots = Inr html"
    and "slots \<noteq> []"
  shows "\<exists>levels c.
           levels = sort_key slot_number (map fst slots)
           \<and> mset levels = mset (map fst slots)
           \<and> sorted (map slot_number levels)
           \<and> c = (length slots + 1) div 2 \<and> length slots \<le> 2 * c \<and> 2 * c \<le> length slots + 1
           \<and> list_all (slot_numbers_known slots) levels
           \<and> html = slots_open @ concat (map (slot_block slots) (take c levels))
                    @ slots_middle @ concat (map (slot_block slots) (drop c levels))
                    @ slots_close"
proof -
  let ?levels = "sort_key slot_number (map fst slots)"
  let ?c = "(length slots + 1) div 2"
  from assms obtain spell_levels where s: "py_sorted int_key (map fst slots) = Inr spell_levels"
    by (auto simp: render_spell_slots_def split: sum.splits)
  have lv: "spell_levels = ?levels"
    using py_sorted_by [OF s] int_key_Inr by blast
  have len: "length ?levels = length slots"
    by simp
  from assms s obtain one two where
    one: "collect (render_slot_level slots) (take ?c ?levels) = Inr one" and
    two: "collect (render_slot_level slots) (drop ?c ?levels) = Inr two" and
    html: "html = slots_open @ one @ slots_middle @ two @ slots_close"
    unfolding lv by (auto simp: render_spell_slots_def Let_def split: sum.splits)
  have "list_all (slot_numbers_known slots) (take ?c ?levels @ drop ?c ?levels)"
    using collect_slot_levels [OF one] collect_slot_levels [OF two]
    unfolding list_all_append by blast
  then have known: "list_all (slot_numbers_known slots) ?levels"
    by simp
  have "html = slots_open @ concat (map (slot_block slots) (take ?c ?levels))
                @ slots_middle @ concat (map (slot_block slots) (drop ?c ?levels))
                @ slots_close"
    using html collect_slot_levels [OF one] collect_slot_levels [OF two] by simp
  moreover have "mset ?levels = mset (map fst slots)" "sorted (map slot_number ?levels)"
    by (simp_all add: sorted_sort_key)
  moreover have "length slots \<le> 2 * ?c \<and> 2 * ?c \<le> length slots + 1"
    by presburger
  ultimately show ?thesis
    using known by blast
qed


lemma concat_replicate_markers:
  "concat (map render_marker (replicate n b)) = concat (replicate n (render_marker b))"
  by (induction n) auto

lemma render_marker_text:
  "render_marker True = checked_marker" "render_marker False = unchecked_marker"
  by (simp_all add: render_marker_def checked_marker_def unchecked_marker_def)

lemma markers_text: "concat (map render_marker (markers_spec mx us)) = marker_row mx us"
  by (simp add: markers_spec_def marker_row_def concat_replicate_markers render_marker_text)

lemma slot_block_text: "slot_block slots level = slot_level_text slots level"
  by (simp add: slot_block_def slot_level_text_def level_block_def markers_text
      slot_level_open_def slot_level_close_def split: option.splits)

lemma slot_section_parts_text:
  "slots_open @ concat one @ slots_middle @ concat two @ slots_close = slot_section one two"
  by (simp add: slots_open_def slots_middle_def slots_close_def slot_section_def slot_column_def)

text \<open>
  C7. When the slot section is rendered for \<open>k\<close> populated levels, its text is the section
  of two columns: the levels are taken in ascending numeric order, the first \<open>ceil(k/2)\<close> of
  them fill column one and the others column two, and the block of a level with maximum
  \<open>mx\<close> and \<open>us\<close> used slots holds \<open>mx\<close> check boxes, the first \<open>us\<close> of them checked
  (all of them when \<open>us\<close> exceeds \<open>mx\<close>, and none for a maximum below 1).
\<close>

theorem slot_section_text:
  assumes "render_spell_slots slots = Inr html"
    and "slots \<noteq> []"
  shows "\<exists>levels c.
           levels = sort_key slot_number (map fst slots)
           \<and> mset levels = mset (map fst slots)
           \<and> sorted (map slot_number levels)
           \<and> c = (length slots + 1) div 2 \<and> length slots \<le> 2 * c \<and> 2 * c \<le> length slots + 1
           \<and> list_all (slot_numbers_known slots) levels
           \<and> html = slot_section (map (slot_level_text slots) (take c levels))
                                  (map (slot_level_text slots) (drop c levels))"
proof -
  from slot_section_layout [OF assms] obtain levels c where
    l: "levels = sort_key slot_number (map fst slots)"
       "mset levels = mset (map fst slots)"
       "sorted (map slot_number levels)"
       "c = (length slots + 1) div 2" "length slots \<le> 2 * c" "2 * c \<le> length slots + 1"
       "list_all (slot_numbers_known slots) levels"
    and h: "html = slots_open @ concat (map (slot_block slots) (take c levels))
                    @ slots_middle @ concat (map (slot_block slots) (drop c levels))
                    @ slots_close"
    by blast
  have b: "slot_block slots = slot_level_text slots"
    by (rule ext) (rule slot_block_text)
  have "html = slot_section (map (slot_level_text slots) (take c levels))
                            (map (slot_level_text slots) (drop c levels))"
    unfolding h b by (rule slot_section_parts_text)
  with l show ?thesis
    by blast
qed

theorem slot_section_text_witness:
  "succeeds (render_spell_slots three_slots)
   \<and> three_slots \<noteq> []
   \<and> render_spell_slots three_slots =
       Inr (slot_section [level_block ''1'' 4 2, level_block ''2'' 3 0] [level_block ''3'' 2 2])
   \<and> marker_row 4 2 = checked_marker @ checked_marker @ unchecked_marker @ unchecked_marker"
proof -
  have ok: "succeeds (render_spell_slots three_slots)"
    by code_simp
  then obtain html where h: "render_spell_slots three_slots = Inr html"
    by (cases "render_spell_slots three_slots") (auto simp: succeeds_def)
  have ne: "three_slots \<noteq> []"
    by (simp add: three_slots_def)
  have lv: "sort_key slot_number (map fst three_slots) = [''1'', ''2'', ''3'']"
    by code_simp
  have c: "(length three_slots + 1) div 2 = 2"
    by (simp add: three_slots_def)
  have t: "map (slot_level_text three_slots) [''1'', ''2''] = [level_block ''1'' 4 2, level_block ''2'' 3 0]"
    "map (slot_level_text three_slots) [''3''] = [level_block ''3'' 2 2]"
    by code_simp+
  have mk: "marker_row 4 2 = checked_marker @ checked_marker @ unchecked_marker @ unchecked_marker"
    by code_simp
  from slot_section_text [OF h ne]
  have "html = slot_section (map (slot_level_text three_slots) (take 2 [''1'', ''2'', ''3'']))
                            (map (slot_level_text three_slots) (drop 2 [''1'', ''2'', ''3'']))"
    unfolding lv c by simp
  then have "html = slot_section [level_block ''1'' 4 2, level_block ''2'' 3 0] [level_block ''3'' 2 2]"
    using t by simp
  with h ok ne mk show ?thesis
    by (intro conjI) simp_all
qed

section \<open>Markup flattening\<close>

lemma unique_lines_loop_kept:
  "seen = {s. s \<noteq> [] \<and> s \<in> set (map py_strip pre)} \<Longrightarrow>
   unique_lines_loop ls seen kept =
     kept @ map (nth (pre @ ls))
              (filter (keeps (pre @ ls)) [length pre..<length pre + length ls])"
proof (induction ls arbitrary: pre seen kept)
  case Nil
  then show ?case by simp
next
  case (Cons l ls)
  let ?s = "py_strip l"
  let ?all = "pre @ l # ls"
  have all: "(pre @ [l]) @ ls = ?all"
    by simp
  have upt: "[length pre..<length pre + length (l # ls)] =
               length pre # [length (pre @ [l])..<length (pre @ [l]) + length ls]"
  proof -
    have "[length pre..<length pre + length (l # ls)] =
            length pre # [Suc (length pre)..<length pre + length (l # ls)]"
      by (rule upt_conv_Cons) simp
    then show ?thesis
      by (simp del: upt_Suc)
  qed
  have k: "keeps ?all (length pre) \<longleftrightarrow> \<not> (?s \<noteq> [] \<and> ?s \<in> seen)"
    using Cons.prems by (auto simp: keeps_def)
  have at: "?all ! length pre = l"
    by simp
  let ?rest = "map (nth ?all)
        (filter (keeps ?all) [length (pre @ [l])..<length (pre @ [l]) + length ls])"
  let ?goal = "kept @ map (nth ?all)
        (filter (keeps ?all) [length pre..<length pre + length (l # ls)])"
  show ?case
  proof (cases "?s \<noteq> [] \<and> ?s \<in> seen")
    case True
    then have seen: "seen = {s. s \<noteq> [] \<and> s \<in> set (map py_strip (pre @ [l]))}"
      using Cons.prems by auto
    have "unique_lines_loop (l # ls) seen kept = unique_lines_loop ls seen kept"
      using True by (simp add: Let_def)
    also have "\<dots> = kept @ ?rest"
      using Cons.IH [OF seen, of kept] unfolding all .
    finally have eq: "unique_lines_loop (l # ls) seen kept = kept @ ?rest" .
    have "?goal = kept @ ?rest"
      unfolding upt using k True by (simp del: upt_Suc)
    with eq show ?thesis
      by (simp only:)
  next
    case False
    let ?seen = "if ?s \<noteq> [] then insert ?s seen else seen"
    have seen: "?seen = {s. s \<noteq> [] \<and> s \<in> set (map py_strip (pre @ [l]))}"
      using Cons.prems by auto
    have "unique_lines_loop (l # ls) seen kept = unique_lines_loop ls ?seen (kept @ [l])"
      using False by (auto simp: Let_def)
    also have "\<dots> = (kept @ [l]) @ ?rest"
      using Cons.IH [OF seen, of "kept @ [l]"] unfolding all .
    finally have eq: "unique_lines_loop (l # ls) seen kept = (kept @ [l]) @ ?rest" .
    have "?goal = (kept @ [l]) @ ?rest"
      unfolding upt using k False by (simp del: upt_Suc)
    with eq show ?thesis
      by (simp only:)
  qed
qed

lemma unique_lines_loop_kept_lines: "unique_lines_loop ls {} [] = kept_lines ls"
  using unique_lines_loop_kept [of "{}" "[]" ls "[]"] by (simp add: kept_lines_def)

text \<open>
  C5, as the program has it. The flattening trims the leading text of the element, appends
  the serialized children in document order, trims the whole, splits it at line feeds, keeps
  every line that is blank after trimming or whose trimmed content no earlier line has
  (so the first of equal lines stays, the order stays, and a blank line is never recorded),
  joins the kept lines with line feeds and trims the result.
\<close>

theorem formatted_html_trims:
  "formatted_html tostring (Some e) =
     py_strip (py_join [CHR 0x0A]
       (kept_lines (split_lines
          (py_strip (py_strip (leading_text e) @ concat (map tostring (children e)))))))
   \<and> formatted_html tostring None = []"
  by (simp add: formatted_html_def leading_text_def unique_lines_loop_kept_lines Let_def
      split: option.splits)

theorem formatted_html_trims_witness:
  "py_strip (py_join [CHR 0x0A]
       (kept_lines (split_lines
          (py_strip (py_strip (leading_text repeated_lines)
             @ concat (map (\<lambda>e. []) (children repeated_lines)))))))
     = ''a\<newline>  b\<newline>\<newline>c''"
proof -
  have "formatted_html (\<lambda>e. []) (Some repeated_lines) = ''a\<newline>  b\<newline>\<newline>c''"
    by code_simp
  with formatted_html_trims [of "\<lambda>e. []" repeated_lines]
  show ?thesis by simp
qed

text \<open>
  C5 as the specification states it fails: of the lines \<open>a\<close>, blank, \<open>a\<close> the filter keeps
  \<open>a\<close> and the blank line, but the program returns \<open>a\<close> alone, the final trim having
  removed the blank line.
\<close>

theorem formatted_html_loses_blank_line:
  "formatted_html (\<lambda>e. []) (Some blank_before_repeat) = ''a''
   \<and> flattened_as_stated (\<lambda>e. []) blank_before_repeat = ''a\<newline>''"
  by code_simp

section \<open>Errors at the boundary\<close>

lemma safe_get_text_nonempty: "dflt \<noteq> [] \<Longrightarrow> safe_get_text e p dflt \<noteq> []"
  by (auto simp: safe_get_text_def split: option.splits)

lemma update_member:
  "(k', v') \<in> set (AList.update k v al) \<Longrightarrow> (k', v') = (k, v) \<or> (k', v') \<in> set al"
  by (induction al) (auto split: if_splits)

lemma str_nat_nonempty: "str_nat n \<noteq> []"
  by (subst str_nat.simps) simp

lemma spell_slots_loop_present:
  "slot_texts_present slots \<Longrightarrow> slot_texts_present (spell_slots_loop pm ns slots)"
proof (induction ns arbitrary: slots)
  case Nil
  then show ?case by simp
next
  case (Cons n ns)
  have "slot_texts_present (AList.update (str_nat n) sl slots)"
    if "max_slots sl \<noteq> []" "used_slots sl \<noteq> []" for sl
    using Cons.prems that str_nat_nonempty [of n] unfolding slot_texts_present_def
    by (auto dest!: update_member)
  then show ?case
    using Cons by (auto simp: Let_def safe_get_text_nonempty split: option.splits)
qed

lemma extract_slots_present:
  "extract_model ts root = Inr m \<Longrightarrow> slot_texts_present (spell_slots m)"
proof -
  assume "extract_model ts root = Inr m"
  then obtain char where "spell_slots m = extract_spell_slots char"
    by (auto simp: extract_model_def Let_def split: option.splits sum.splits)
  moreover have "slot_texts_present []"
    by (simp add: slot_texts_present_def)
  ultimately show ?thesis
    by (auto simp: extract_spell_slots_def intro: spell_slots_loop_present split: option.splits)
qed

lemma py_sorted_set: "py_sorted key xs = Inr ys \<Longrightarrow> set ys = set xs"
  using py_sorted_Inr [of key xs ys] by auto

lemma render_spell_slots_value_error:
  assumes "render_spell_slots slots = Inl e" and "slot_texts_present slots"
  shows "\<exists>s. e = ValueError s \<and> s \<noteq> [] \<and> py_int s = None"
proof (cases "py_sorted int_key (map fst slots)")
  case (Inl e')
  then have "e' = e"
    using assms(1) by (auto simp: render_spell_slots_def split: if_splits)
  with Inl obtain k where "k \<in> set (map fst slots)" "int_key k = Inl e"
    using py_sorted_Inl by blast
  then show ?thesis
    using assms(2) by (auto simp: int_key_def slot_texts_present_def split: option.splits)
next
  case (Inr levels)
  let ?c = "(length levels + 1) div 2"
  have sub: "set (take ?c levels) \<subseteq> set (map fst slots)" "set (drop ?c levels) \<subseteq> set (map fst slots)"
    using py_sorted_set [OF Inr] set_take_subset [of ?c levels] set_drop_subset [of ?c levels]
    by auto
  from assms(1) Inr have
    "collect (render_slot_level slots) (take ?c levels) = Inl e
     \<or> collect (render_slot_level slots) (drop ?c levels) = Inl e"
    by (auto simp: render_spell_slots_def Let_def split: if_splits sum.splits)
  then obtain level where "level \<in> set (take ?c levels) \<union> set (drop ?c levels)"
    and err: "render_slot_level slots level = Inl e"
    by (meson collect_Inl UnI1 UnI2)
  then have level: "level \<in> set (map fst slots)"
    using sub by blast
  from level obtain sl where sl: "map_of slots level = Some sl"
    by (cases "map_of slots level") (auto simp: map_of_eq_None_iff)
  then have "(level, sl) \<in> set slots"
    by (rule map_of_SomeD)
  then have "max_slots sl \<noteq> []" "used_slots sl \<noteq> []"
    using assms(2) by (auto simp: slot_texts_present_def)
  then show ?thesis
    using err sl by (auto simp: render_slot_level_def split: option.splits)
qed

lemma is_digit_nonempty: "py_isdigit s \<Longrightarrow> s \<noteq> []"
  by (simp add: py_isdigit_def)

lemma render_spells_value_error:
  assumes "render_spells sps = Inl e"
  shows "\<exists>s. e = ValueError s \<and> s \<noteq> [] \<and> py_int s = None"
proof (cases "py_sorted level_order_key (map fst (group_loop sps []))")
  case (Inl e')
  then have "e' = e"
    using assms by (auto simp: render_spells_def Let_def split: if_splits)
  with Inl obtain k where "level_order_key k = Inl e"
    using py_sorted_Inl by blast
  then show ?thesis
    by (auto simp: level_order_key_def split: if_splits option.splits dest: is_digit_nonempty)
next
  case (Inr level_order)
  from assms Inr have "collect (render_spell_group (group_loop sps [])) level_order = Inl e"
    by (auto simp: render_spells_def Let_def split: if_splits sum.splits)
  then obtain level where "level \<in> set level_order"
    and err: "render_spell_group (group_loop sps []) level = Inl e"
    by (auto dest!: collect_Inl)
  then have "level \<in> set (map fst (group_loop sps []))"
    using py_sorted_set [OF Inr] by simp
  then have "map_of (group_loop sps []) level \<noteq> None"
    by (simp add: map_of_eq_None_iff)
  then show ?thesis
    using err by (auto simp: render_spell_group_def split: option.splits)
qed

lemma extract_value_error:
  assumes "extract_model ts root = Inl e" and "find root [''character''] \<noteq> None"
  shows "\<exists>s. e = ValueError s \<and> s \<noteq> [] \<and> py_int s = None"
proof -
  from assms obtain char where "find root [''character''] = Some char"
    by auto
  with assms(1) obtain sps where "py_sorted spell_sort_key sps = Inl e"
    by (auto simp: extract_model_def Let_def split: sum.splits)
  then obtain x where "spell_sort_key x = Inl e"
    using py_sorted_Inl by blast
  then show ?thesis
    by (auto simp: spell_sort_key_def split: if_splits option.splits dest: is_digit_nonempty)
qed

lemma program_value_error:
  assumes "parse_fgu_character_to_html css ts (Inr root) = Inl e"
    and "find root [''character''] \<noteq> None"
  shows "\<exists>s. e = ValueError s \<and> s \<noteq> [] \<and> py_int s = None"
proof (cases "extract_model ts root")
  case (Inl e')
  then show ?thesis
    using assms extract_value_error [of ts root e'] by (simp add: parse_fgu_character_to_html_def)
next
  case (Inr m)
  then have r: "render css m = Inl e"
    using assms(1) by (simp add: parse_fgu_character_to_html_def)
  show ?thesis
  proof (cases "render_spell_slots (spell_slots m)")
    case (Inl e')
    then have "e' = e"
      using r by (simp add: render_def)
    then show ?thesis
      using Inl render_spell_slots_value_error extract_slots_present [OF Inr] by blast
  next
    case slots: (Inr h)
    then have "render_spells (spells m) = Inl e"
      using r by (auto simp: render_def split: sum.splits)
    then show ?thesis
      by (rule render_spells_value_error)
  qed
qed

lemma default_values_parse: "s \<in> set default_values \<Longrightarrow> s = [] \<or> py_int s \<noteq> None"
proof -
  have "list_all (\<lambda>s. s = [] \<or> py_int s \<noteq> None) default_values"
    by code_simp
  then show "s \<in> set default_values \<Longrightarrow> s = [] \<or> py_int s \<noteq> None"
    by (simp add: list_all_iff)
qed

lemma program_malformed_iff:
  "parse_fgu_character_to_html css ts parsed = Inl (MalformedInput msg) \<longleftrightarrow>
     msg = ''Error: No character data found in XML''
     \<and> (\<exists>root. parsed = Inr root \<and> find root [''character''] = None)"
proof (cases parsed)
  case (Inl parse_error)
  then show ?thesis
    by (simp add: parse_fgu_character_to_html_def)
next
  case (Inr root)
  show ?thesis
  proof (cases "find root [''character'']")
    case None
    then show ?thesis
      using Inr extract_model_missing [OF None, of ts]
      by (auto simp: parse_fgu_character_to_html_def no_character_message_def)
  next
    case (Some char)
    have "parse_fgu_character_to_html css ts parsed \<noteq> Inl (MalformedInput msg)"
    proof
      assume "parse_fgu_character_to_html css ts parsed = Inl (MalformedInput msg)"
      then have "parse_fgu_character_to_html css ts (Inr root) = Inl (MalformedInput msg)"
        using Inr by simp
      from program_value_error [OF this] Some show False
        by auto
    qed
    then show ?thesis
      using Inr Some by auto
  qed
qed

lemma safe_get_text_absent:
  "find e path = None \<Longrightarrow> safe_get_text (Some e) path dflt = dflt"
  "find e path = Some sub \<Longrightarrow> etext sub = None \<or> etext sub = Some [] \<Longrightarrow>
     safe_get_text (Some e) path dflt = dflt"
  "safe_get_text None path dflt = dflt"
  by (auto simp: safe_get_text_def)

text \<open>
  C1. A run returns the \<open>MalformedInput\<close> error exactly when the tree was parsed and has no
  character record, and the error then carries the message of line 96, with no document.
  A field that is absent, or present without text, reads as the default. Any other failure
  on a tree with a character record is the \<open>ValueError\<close> of \<open>int()\<close> on a text that is
  none of the defaults, so no absence of a field leads to an error.
\<close>

theorem malformed_input_only_without_character:
  "(parse_fgu_character_to_html css tostring parsed = Inl (MalformedInput msg) \<longleftrightarrow>
      msg = ''Error: No character data found in XML''
      \<and> (\<exists>root. parsed = Inr root \<and> find root [''character''] = None))
   \<and> (find e path = None \<longrightarrow> safe_get_text (Some e) path dflt = dflt)
   \<and> (\<forall>sub. find e path = Some sub \<and> (etext sub = None \<or> etext sub = Some [])
          \<longrightarrow> safe_get_text (Some e) path dflt = dflt)
   \<and> safe_get_text None path dflt = dflt
   \<and> (\<forall>root err. parsed = Inr root \<and> find root [''character''] \<noteq> None
          \<and> parse_fgu_character_to_html css tostring parsed = Inl err
          \<longrightarrow> (\<exists>s. err = ValueError s \<and> py_int s = None \<and> s \<notin> set default_values))"
proof (intro conjI allI impI)
  show "parse_fgu_character_to_html css tostring parsed = Inl (MalformedInput msg) \<longleftrightarrow>
      msg = ''Error: No character data found in XML''
      \<and> (\<exists>root. parsed = Inr root \<and> find root [''character''] = None)"
    by (rule program_malformed_iff)
next
  assume "find e path = None"
  then show "safe_get_text (Some e) path dflt = dflt"
    by (rule safe_get_text_absent)
next
  fix sub
  assume "find e path = Some sub \<and> (etext sub = None \<or> etext sub = Some [])"
  then show "safe_get_text (Some e) path dflt = dflt"
    using safe_get_text_absent(2) by blast
next
  show "safe_get_text None path dflt = dflt"
    by (rule safe_get_text_absent)
next
  fix root err
  assume a: "parsed = Inr root \<and> find root [''character''] \<noteq> None
          \<and> parse_fgu_character_to_html css tostring parsed = Inl err"
  then have "parse_fgu_character_to_html css tostring (Inr root) = Inl err"
    "find root [''character''] \<noteq> None"
    by auto
  from program_value_error [OF this] obtain s where
    s: "err = ValueError s" "s \<noteq> []" "py_int s = None"
    by blast
  then have "s \<notin> set default_values"
    using default_values_parse by blast
  with s show "\<exists>s. err = ValueError s \<and> py_int s = None \<and> s \<notin> set default_values"
    by blast
qed

theorem malformed_input_only_without_character_witness:
  "find (node ''root'' []) [''character''] = None
   \<and> parse_fgu_character_to_html [] (\<lambda>e. []) (Inr (node ''root'' []))
       = Inl (MalformedInput ''Error: No character data found in XML'')
   \<and> find (node ''character'' []) [''name''] = None
   \<and> safe_get_text (Some (node ''character'' [])) [''name''] ''none'' = ''none''
   \<and> find (node ''root'' [bad_slot]) [''character''] \<noteq> None
   \<and> parse_fgu_character_to_html [] (\<lambda>e. []) (Inr (node ''root'' [bad_slot]))
       = Inl (ValueError ''x'')
   \<and> ''x'' \<notin> set default_values"
proof -
  have f: "find (node ''root'' []) [''character''] = None"
    by code_simp
  have g: "find (node ''character'' []) [''name''] = None"
    by code_simp
  have h: "find (node ''root'' [bad_slot]) [''character''] \<noteq> None"
    by code_simp
  have b: "parse_fgu_character_to_html [] (\<lambda>e. []) (Inr (node ''root'' [bad_slot]))
             = Inl (ValueError ''x'')"
    by code_simp
  note t1 = malformed_input_only_without_character
    [of "[]" "\<lambda>e. []" "Inr (node ''root'' [])" "''Error: No character data found in XML''"
       "node ''character'' []" "[''name'']" "''none''"]
  note t2 = malformed_input_only_without_character
    [of "[]" "\<lambda>e. []" "Inr (node ''root'' [bad_slot])" "[]"
       "node ''character'' []" "[''name'']" "''none''"]
  have c1: "parse_fgu_character_to_html [] (\<lambda>e. []) (Inr (node ''root'' []))
       = Inl (MalformedInput ''Error: No character data found in XML'')"
    using t1 f by simp
  have c2: "safe_get_text (Some (node ''character'' [])) [''name''] ''none'' = ''none''"
    using t1 g by simp
  have c3: "''x'' \<notin> set default_values"
    using t2 h b by simp
  from f c1 g c2 h b c3 show ?thesis
    by (intro conjI)
qed

section \<open>Escaping\<close>

lemma starts_with_iff: "starts_with p s \<longleftrightarrow> (\<exists>v. s = p @ v)"
  by (induction p s rule: starts_with.induct) auto

lemma py_contains_iff: "py_contains p s \<longleftrightarrow> (\<exists>u v. s = u @ p @ v)"
proof (induction s)
  case Nil
  then show ?case by auto
next
  case (Cons c s)
  show ?case
  proof
    assume "py_contains p (c # s)"
    then consider "starts_with p (c # s)" | "py_contains p s"
      by auto
    then show "\<exists>u v. c # s = u @ p @ v"
    proof cases
      case 1
      then obtain v where "c # s = [] @ p @ v"
        by (auto simp: starts_with_iff)
      then show ?thesis by blast
    next
      case 2
      then obtain u v where "s = u @ p @ v"
        using Cons by blast
      then have "c # s = (c # u) @ p @ v"
        by simp
      then show ?thesis by blast
    qed
  next
    assume "\<exists>u v. c # s = u @ p @ v"
    then obtain u v where uv: "c # s = u @ p @ v"
      by blast
    show "py_contains p (c # s)"
    proof (cases u)
      case Nil
      then have "starts_with p (c # s)"
        using uv by (auto simp: starts_with_iff)
      then show ?thesis by simp
    next
      case (Cons d u')
      then have "s = u' @ p @ v"
        using uv by simp
      then have "py_contains p s"
        using Cons.IH by blast
      then show ?thesis by simp
    qed
  qed
qed

lemma render_vitals_wounds:
  "\<exists>u v. render_vitals m = u @ (''value='' @ [CHR 0x27] @ hp_wounds m @ [CHR 0x27]) @ v"
proof -
  show ?thesis
    unfolding render_vitals_def
    apply (rule exI [where x = "''                        </div>\<newline>''
     @ ''                    </div>\<newline>''
     @ ''                </div>\<newline>''
     @ ''                \<newline>''
     @ ''                <div style=\"display: grid; grid-template-columns: 1fr 1fr; gap: 15px;\">\<newline>''
     @ ''                    <div class=\"section\">\<newline>''
     @ ''                        <h2>Hit Points</h2>\<newline>''
     @ ''                        <div class=\"hp-box\">\<newline>''
     @ ''                            <div class=\"hp-total\">''
     @ escape_html (hp_total m)
     @ ''</div>\<newline>''
     @ ''                            <div class=\"hp-current\">Current HP</div>\<newline>''
     @ ''                            <div class=\"hp-details\">\<newline>''
     @ ''                                <div style=\"display: flex; align-items: center; gap: 10px;\">\<newline>''
     @ ''                                    <span>Wounds:</span>\<newline>''
     @ ''                                    <input type=\"text\" ''"])
    apply (rule exI)
    apply (simp only: append_assoc append_Cons append_Nil)
    done
qed


lemma render_contains_vitals:
  "render css m = Inr doc \<Longrightarrow> \<exists>a b. doc = a @ render_vitals m @ b"
proof -
  assume "render css m = Inr doc"
  then obtain x y where
    "doc = (render_head css m @ render_header_info m @ render_abilities m
            @ skills_open @ render_skills (skills m))
           @ render_vitals m
           @ (render_features (features m) @ render_feats (feats m)
              @ render_inventory (inventory m) @ render_coins (coins m) @ x @ y
              @ document_close)"
    by (auto simp: render_def split: sum.splits)
  then show ?thesis by blast
qed

lemma document_contains_wounds:
  assumes "render css m = Inr doc"
  shows "py_contains (''value='' @ [CHR 0x27] @ hp_wounds m @ [CHR 0x27]) doc"
proof -
  from render_contains_vitals [OF assms] obtain a b where d: "doc = a @ render_vitals m @ b"
    by blast
  from render_vitals_wounds [of m] obtain u v where
    v: "render_vitals m = u @ (''value='' @ [CHR 0x27] @ hp_wounds m @ [CHR 0x27]) @ v"
    by blast
  have "doc = (a @ u) @ (''value='' @ [CHR 0x27] @ hp_wounds m @ [CHR 0x27]) @ (v @ b)"
    unfolding d v by simp
  then show ?thesis
    unfolding py_contains_iff by blast
qed

text \<open>
  C3 fails on the program. The wounds text is written between the single quotes of the
  \<open>value\<close> attribute of line 784 as it is: a text that starts with a single quote closes
  the attribute and the markup after it reaches the document, while \<open>escape_html\<close>, used
  for the attribute of line 877, would have written it harmless.
\<close>

theorem wounds_rendered_unescaped:
  "(case parse_fgu_character_to_html [] (\<lambda>e. []) (Inr (node ''root'' [injected])) of
      Inl e \<Rightarrow> False
    | Inr doc \<Rightarrow> py_contains (''value='' @ [CHR 0x27] @ payload @ [CHR 0x27]) doc)
   \<and> escape_html payload = ''&#x27;&gt;&lt;script&gt;alert(1)&lt;/script&gt;''"
proof -
  let ?root = "node ''root'' [injected]"
  have w: "map_sum id hp_wounds (extract_model (\<lambda>e. []) ?root) = Inr payload"
    by code_simp
  have ok: "succeeds (parse_fgu_character_to_html [] (\<lambda>e. []) (Inr ?root))"
    by code_simp
  then obtain doc where doc: "parse_fgu_character_to_html [] (\<lambda>e. []) (Inr ?root) = Inr doc"
    by (cases "parse_fgu_character_to_html [] (\<lambda>e. []) (Inr ?root)") (auto simp: succeeds_def)
  then obtain m where m: "extract_model (\<lambda>e. []) ?root = Inr m" and r: "render [] m = Inr doc"
    by (auto simp: parse_fgu_character_to_html_def split: sum.splits)
  have "hp_wounds m = payload"
    using w m by simp
  with document_contains_wounds [OF r]
  have "py_contains (''value='' @ [CHR 0x27] @ payload @ [CHR 0x27]) doc"
    by simp
  moreover have "escape_html payload = ''&#x27;&gt;&lt;script&gt;alert(1)&lt;/script&gt;''"
    by code_simp
  ultimately show ?thesis
    using doc by simp
qed

end
